theory Spec2Isabelle
  imports Complex_Main
begin

section \<open>Scalars, element types, tensors and errors\<close>

text \<open>
  A C++ \<open>double\<close> is a finite value, an infinity or a NaN. Finite values are
  rationals and the arithmetic on them is exact: rounding and overflow of binary64 are
  not part of this model, so a statement about \<open>fp_add\<close> or \<open>fp_sub\<close> is a
  statement about the code wherever the operation is exact in binary64 (as it is for
  the small dyadic values of the examples below). Comparisons follow IEEE 754: every
  comparison with a NaN is false.
\<close>

datatype double = Finite rat | PosInf | NegInf | NaN

fun isfinite :: "double \<Rightarrow> bool" where
  "isfinite (Finite _) = True"
| "isfinite _ = False"

fun isinf :: "double \<Rightarrow> bool" where
  "isinf PosInf = True"
| "isinf NegInf = True"
| "isinf _ = False"

fun isnan :: "double \<Rightarrow> bool" where
  "isnan NaN = True"
| "isnan _ = False"

text \<open>\<open>a == b\<close>, \<open>a < b\<close> and \<open>a <= b\<close> on doubles.\<close>

fun fp_eq :: "double \<Rightarrow> double \<Rightarrow> bool" where
  "fp_eq (Finite a) (Finite b) = (a = b)"
| "fp_eq PosInf PosInf = True"
| "fp_eq NegInf NegInf = True"
| "fp_eq _ _ = False"

fun fp_lt :: "double \<Rightarrow> double \<Rightarrow> bool" where
  "fp_lt (Finite a) (Finite b) = (a < b)"
| "fp_lt NegInf (Finite _) = True"
| "fp_lt NegInf PosInf = True"
| "fp_lt (Finite _) PosInf = True"
| "fp_lt _ _ = False"

definition fp_le :: "double \<Rightarrow> double \<Rightarrow> bool" where
  "fp_le a b = (fp_lt a b \<or> fp_eq a b)"

text \<open>\<open>a + b\<close> and \<open>a - b\<close> on doubles.\<close>

fun fp_neg :: "double \<Rightarrow> double" where
  "fp_neg (Finite a) = Finite (- a)"
| "fp_neg PosInf = NegInf"
| "fp_neg NegInf = PosInf"
| "fp_neg NaN = NaN"

fun fp_add :: "double \<Rightarrow> double \<Rightarrow> double" where
  "fp_add (Finite a) (Finite b) = Finite (a + b)"
| "fp_add NaN _ = NaN"
| "fp_add _ NaN = NaN"
| "fp_add PosInf NegInf = NaN"
| "fp_add NegInf PosInf = NaN"
| "fp_add PosInf _ = PosInf"
| "fp_add NegInf _ = NegInf"
| "fp_add (Finite _) b = b"

definition fp_sub :: "double \<Rightarrow> double \<Rightarrow> double" where
  "fp_sub a b = fp_add a (fp_neg b)"

text \<open>The element types of \<open>c10::ScalarType\<close> that a CPU tensor can carry here.\<close>

datatype ScalarType = kByte | kChar | kShort | kInt | kLong | kHalf | kFloat | kDouble | kBool

text \<open>
  A tensor as the code reads it: its element type, its shape and its elements in
  row-major order. Strides and storage are not modelled; a reshape keeps the elements
  and replaces the shape.
\<close>

record Tensor =
  dtype :: ScalarType
  sizes :: "nat list"
  data :: "double list"

text \<open>\<open>t.dim()\<close>, \<open>t.numel()\<close> and \<open>t.reshape(shape)\<close>; the rank is named \<open>dim_t\<close> here.\<close>

definition dim_t :: "Tensor \<Rightarrow> nat" where
  "dim_t t = length (sizes t)"

definition numel :: "Tensor \<Rightarrow> nat" where
  "numel t = prod_list (sizes t)"

definition reshape :: "Tensor \<Rightarrow> nat list \<Rightarrow> Tensor" where
  "reshape t shape = t\<lparr>sizes := shape\<rparr>"

text \<open>\<open>at::empty({0}, self.options())\<close>: an empty one-dimensional tensor of the element type of \<open>self\<close>.\<close>

definition empty0 :: "Tensor \<Rightarrow> Tensor" where
  "empty0 self = \<lparr>dtype = dtype self, sizes = [0], data = []\<rparr>"


text \<open>
  One constructor for every \<open>TORCH_CHECK\<close> of the file, named after its message and
  carrying what the message reports; the remaining constructors are the failures of
  \<open>TORCH_INTERNAL_ASSERT\<close>, of the type dispatch and of the library calls.
\<close>

datatype error =
    InputDimTooSmall nat
  | BinsCountMismatch nat nat
  | BinsDtypeMismatch nat
  | BinsNotOneDim nat nat
  | BinsEmpty nat
  | WeightDtypeMismatch
  | WeightShapeMismatch
  | HistDtypeMismatch
  | BinEdgesDtypeMismatch nat
  | BinsNotPositive int nat
  | RangeSizeMismatch nat nat
  | RangeNotFinite nat
  | MinExceedsMax nat
  | HistcRangeNotFinite
  | HistcMaxNotLarger
  | AllocInputDimTooSmall
  | InternalAssert
  | NotImplementedFor ScalarType
  | IndexOutOfRange
  | LinspaceNegativeSteps
  | ReductionOnEmpty

text \<open>\<open>input.size(-1)\<close>: the innermost extent; an index error on a tensor of rank 0.\<close>

definition size_last :: "Tensor \<Rightarrow> error + nat" where
  "size_last t = (case sizes t of [] \<Rightarrow> Inl IndexOutOfRange | _ \<Rightarrow> Inr (last (sizes t)))"

section \<open>Input validation\<close>

text \<open>
  The loop of \<open>histogramdd_check_inputs\<close> over \<open>dim = 0 .. N - 1\<close>. It runs after the
  check \<open>bins.size() == N\<close>, so it visits exactly the elements of \<open>bins\<close> in order;
  \<open>d\<close> is the loop counter.
\<close>

fun check_bins :: "ScalarType \<Rightarrow> nat \<Rightarrow> Tensor list \<Rightarrow> error + unit" where
  "check_bins input_dtype d [] = Inr ()"
| "check_bins input_dtype d (dim_bins # rest) =
     (if input_dtype \<noteq> dtype dim_bins then Inl (BinsDtypeMismatch d)
      else if dim_t dim_bins \<noteq> 1 then Inl (BinsNotOneDim (dim_t dim_bins) d)
      else if \<not> numel dim_bins > 0 then Inl (BinsEmpty d)
      else check_bins input_dtype (Suc d) rest)"

definition check_weight :: "Tensor \<Rightarrow> Tensor option \<Rightarrow> error + unit" where
  "check_weight input weight =
     (case weight of
        None \<Rightarrow> Inr ()
      | Some w \<Rightarrow>
          if dtype input \<noteq> dtype w then Inl WeightDtypeMismatch
          else
            let input_sizes = butlast (sizes input);
                weight_sizes = (if sizes w = [] then [1] else sizes w)
            in if input_sizes = weight_sizes then Inr () else Inl WeightShapeMismatch)"

definition histogramdd_check_inputs :: "Tensor \<Rightarrow> Tensor list \<Rightarrow> Tensor option \<Rightarrow> error + unit" where
  "histogramdd_check_inputs input bins weight =
     (if \<not> dim_t input \<ge> 2 then Inl (InputDimTooSmall (dim_t input))
      else
        let N = last (sizes input) in
        if length bins \<noteq> N then Inl (BinsCountMismatch N (length bins))
        else
          case check_bins (dtype input) 0 bins of
            Inl e \<Rightarrow> Inl e
          | Inr _ \<Rightarrow> check_weight input weight)"

text \<open>
  The checks above are the \<open>TORCH_CHECK\<close>s whose failure the specification calls an
  \<open>InvalidArgument\<close> condition (it files the outer-range checks under the same kind in
  its component contracts).
\<close>

fun invalid_argument :: "error \<Rightarrow> bool" where
  "invalid_argument InternalAssert = False"
| "invalid_argument (NotImplementedFor _) = False"
| "invalid_argument IndexOutOfRange = False"
| "invalid_argument ReductionOnEmpty = False"
| "invalid_argument _ = True"

text \<open>
  What section 4.1 of the specification requires of the input, the edge sequences and
  the weight.
\<close>

definition inputs_valid :: "Tensor \<Rightarrow> Tensor list \<Rightarrow> Tensor option \<Rightarrow> bool" where
  "inputs_valid input bins weight =
     (dim_t input \<ge> 2 \<and>
      length bins = last (sizes input) \<and>
      (\<forall>b \<in> set bins. dim_t b = 1 \<and> numel b \<ge> 1 \<and> dtype b = dtype input) \<and>
      (case weight of
         None \<Rightarrow> True
       | Some w \<Rightarrow>
           dtype w = dtype input \<and>
           (if sizes w = [] then [1] else sizes w) = butlast (sizes input)))"

section \<open>Output preparation\<close>

text \<open>
  Modelled from the spec: \<open>at::native::resize_output\<close> is the buffer resizer of the
  specification's section 6, "(re)allocates a buffer to a given shape and element
  type, preserving no prior contents", and "idempotent if already correctly sized"
  (section 4.4). The elements of a resized buffer are uninitialised memory in the
  program; the model keeps the old elements that fit and fills the rest with zero.
  Every caller overwrites all of them before they are read.
\<close>

definition resize_output :: "Tensor \<Rightarrow> nat list \<Rightarrow> Tensor" where
  "resize_output t shape =
     (if sizes t = shape then t
      else t\<lparr>sizes := shape,
             data := take (prod_list shape) (data t)
                     @ replicate (prod_list shape - length (data t)) (Finite 0)\<rparr>)"

text \<open>
  The output arguments \<open>hist\<close> and \<open>bin_edges\<close>, which the code mutates in place. A
  function that mutates them returns the outcome together with the outputs as they
  are when it returns or throws.
\<close>

record outs =
  hist :: Tensor
  bin_edges :: "Tensor list"

text \<open>
  The loop of \<open>histogramdd_prepare_out\<close> over \<open>dim = 0 .. N - 1\<close>, after the two
  assertions that \<open>bin_ct\<close> and \<open>bin_edges\<close> have \<open>N\<close> elements: the edge buffers of
  the dimensions before a failing one are already resized when the check throws.
\<close>

fun prepare_edges :: "ScalarType \<Rightarrow> nat \<Rightarrow> int list \<Rightarrow> Tensor list \<Rightarrow> (error + unit) \<times> Tensor list" where
  "prepare_edges input_dtype d (k # ks) (e # es) =
     (if input_dtype \<noteq> dtype e then (Inl (BinEdgesDtypeMismatch d), e # es)
      else if \<not> k > 0 then (Inl (BinsNotPositive k d), e # es)
      else
        let (r, es') = prepare_edges input_dtype (Suc d) ks es
        in (r, resize_output e [nat (k + 1)] # es'))"
| "prepare_edges input_dtype d _ es = (Inr (), es)"

definition histogramdd_prepare_out :: "Tensor \<Rightarrow> int list \<Rightarrow> outs \<Rightarrow> (error + unit) \<times> outs" where
  "histogramdd_prepare_out input bin_ct out =
     (case size_last input of
        Inl e \<Rightarrow> (Inl e, out)
      | Inr N \<Rightarrow>
          if length bin_ct \<noteq> N then (Inl InternalAssert, out)
          else if length (bin_edges out) \<noteq> N then (Inl InternalAssert, out)
          else if dtype input \<noteq> dtype (hist out) then (Inl HistDtypeMismatch, out)
          else
            let (r, es') = prepare_edges (dtype input) 0 bin_ct (bin_edges out)
            in case r of
                 Inl e \<Rightarrow> (Inl e, out\<lparr>bin_edges := es'\<rparr>)
               | Inr _ \<Rightarrow>
                   (Inr (), \<lparr>hist = resize_output (hist out) (map nat bin_ct), bin_edges = es'\<rparr>))"

text \<open>The overload that derives the bin counts from edge tensors: \<open>t.numel() - 1\<close>.\<close>

definition histogramdd_prepare_out_bins :: "Tensor \<Rightarrow> Tensor list \<Rightarrow> outs \<Rightarrow> (error + unit) \<times> outs" where
  "histogramdd_prepare_out_bins input bins out =
     histogramdd_prepare_out input (map (\<lambda>t. int (numel t) - 1) bins) out"

section \<open>Outer bin edges\<close>

text \<open>
  Modelled from the spec: \<open>aminmax(input, 0)\<close> is the "column-wise min/max reduction
  over axis 0 of a 2-D buffer" of the specification's section 6. Column \<open>d\<close> of an
  \<open>(M, N)\<close> buffer in row-major order holds the elements \<open>d, N + d, 2 N + d, ...\<close>. A NaN
  in a column makes its minimum and its maximum NaN, as the library's reduction does.
\<close>

definition fp_min :: "double \<Rightarrow> double \<Rightarrow> double" where
  "fp_min a b = (if isnan a \<or> isnan b then NaN else if fp_lt b a then b else a)"

definition fp_max :: "double \<Rightarrow> double \<Rightarrow> double" where
  "fp_max a b = (if isnan a \<or> isnan b then NaN else if fp_lt a b then b else a)"

definition column :: "Tensor \<Rightarrow> nat \<Rightarrow> double list" where
  "column input d =
     (let M = hd (sizes input); N = last (sizes input)
      in map (\<lambda>i. data input ! (i * N + d)) [0..<M])"

definition infer_bin_edges_from_input :: "Tensor \<Rightarrow> nat \<Rightarrow> double list \<times> double list" where
  "infer_bin_edges_from_input input N =
     (map (\<lambda>d. foldl fp_min (hd (column input d)) (tl (column input d))) [0..<N],
      map (\<lambda>d. foldl fp_max (hd (column input d)) (tl (column input d))) [0..<N])"

text \<open>
  The second loop of \<open>select_outer_bin_edges\<close>: per dimension, the finiteness check,
  the order check, then the expansion of an empty range by 0.5 on each side.
\<close>

fun check_outer_edges :: "nat \<Rightarrow> double list \<Rightarrow> double list \<Rightarrow> error + (double list \<times> double list)" where
  "check_outer_edges d (leftmost_edge # ls) (rightmost_edge # rs) =
     (if \<not> (isfinite leftmost_edge \<and> isfinite rightmost_edge) then Inl (RangeNotFinite d)
      else if \<not> fp_le leftmost_edge rightmost_edge then Inl (MinExceedsMax d)
      else
        case check_outer_edges (Suc d) ls rs of
          Inl e \<Rightarrow> Inl e
        | Inr (ls', rs') \<Rightarrow>
            if fp_eq leftmost_edge rightmost_edge
            then Inr (fp_sub leftmost_edge (Finite (1/2)) # ls', fp_add rightmost_edge (Finite (1/2)) # rs')
            else Inr (leftmost_edge # ls', rightmost_edge # rs'))"
| "check_outer_edges d _ _ = Inr ([], [])"

text \<open>
  The first part of \<open>select_outer_bin_edges\<close>: the bounds before validation, from the
  range, from the data, or the defaults \<open>(0, 1)\<close>. \<open>AT_DISPATCH_FLOATING_TYPES\<close> accepts
  \<open>kFloat\<close> and \<open>kDouble\<close> and throws for every other element type.
\<close>

definition resolve_outer_edges :: "Tensor \<Rightarrow> double list option \<Rightarrow> error + (double list \<times> double list)" where
  "resolve_outer_edges input range_opt =
     (let N = last (sizes input) in
      case range_opt of
        Some r \<Rightarrow>
          if length r \<noteq> 2 * N then Inl (RangeSizeMismatch (2 * N) (length r))
          else Inr (map (\<lambda>d. r ! (2 * d)) [0..<N], map (\<lambda>d. r ! (2 * d + 1)) [0..<N])
      | None \<Rightarrow>
          if numel input > 0 then
            (if dtype input = kFloat \<or> dtype input = kDouble
             then Inr (infer_bin_edges_from_input input N)
             else Inl (NotImplementedFor (dtype input)))
          else Inr (replicate N (Finite 0), replicate N (Finite 1)))"

definition select_outer_bin_edges :: "Tensor \<Rightarrow> double list option \<Rightarrow> error + (double list \<times> double list)" where
  "select_outer_bin_edges input range_opt =
     (if dim_t input \<noteq> 2 then Inl InternalAssert
      else
        case resolve_outer_edges input range_opt of
          Inl e \<Rightarrow> Inl e
        | Inr (leftmost_edges, rightmost_edges) \<Rightarrow>
            check_outer_edges 0 leftmost_edges rightmost_edges)"

text \<open>
  The bounds of dimension \<open>d\<close> before validation, in the words of section 4.2 of the
  specification: the \<open>d\<close>-th pair of the range when a range is supplied; else the
  column-wise minimum and maximum when the sample set is not empty; else \<open>(0, 1)\<close>.
\<close>

definition outer_bound :: "Tensor \<Rightarrow> double list option \<Rightarrow> nat \<Rightarrow> double \<times> double" where
  "outer_bound input range_opt d =
     (case range_opt of
        Some r \<Rightarrow> (r ! (2 * d), r ! (2 * d + 1))
      | None \<Rightarrow>
          if numel input = 0 then (Finite 0, Finite 1)
          else (foldl fp_min (hd (column input d)) (tl (column input d)),
                foldl fp_max (hd (column input d)) (tl (column input d))))"

text \<open>The expansion of section 4.2: a pair with equal bounds grows by 0.5 on each side.\<close>

definition expand_empty_range :: "double \<times> double \<Rightarrow> double \<times> double" where
  "expand_empty_range p =
     (if fp_eq (fst p) (snd p) then (fp_sub (fst p) (Finite (1/2)), fp_add (snd p) (Finite (1/2))) else p)"

text \<open>
  Modelled from the spec: \<open>_aminmax(input)\<close> is the reduction to "the data's global
  minimum/maximum" (section 4.2). The specification says nothing of an empty buffer;
  the reduction has no identity, and the model makes it an error.
\<close>

definition aminmax_all :: "Tensor \<Rightarrow> error + (double \<times> double)" where
  "aminmax_all input =
     (case data input of
        [] \<Rightarrow> Inl ReductionOnEmpty
      | x # xs \<Rightarrow> Inr (foldl fp_min x xs, foldl fp_max x xs))"

text \<open>
  \<open>histc_select_outer_bin_edges\<close>; \<open>min\<close> and \<open>max\<close> are the two scalars already
  converted to double. \<open>histc_check\<close> is the part after the bounds were taken from
  the data or left as given: the second comparison with its expansion by 1, then the
  two checks.
\<close>

definition histc_check :: "double \<Rightarrow> double \<Rightarrow> error + (double \<times> double)" where
  "histc_check leftmost_edge rightmost_edge =
     (let (l, r) = (if fp_eq leftmost_edge rightmost_edge
                    then (fp_sub leftmost_edge (Finite 1), fp_add rightmost_edge (Finite 1))
                    else (leftmost_edge, rightmost_edge))
      in if isinf l \<or> isinf r \<or> isnan l \<or> isnan r then Inl HistcRangeNotFinite
         else if \<not> fp_lt l r then Inl HistcMaxNotLarger
         else Inr (l, r))"

definition histc_select_outer_bin_edges :: "Tensor \<Rightarrow> double \<Rightarrow> double \<Rightarrow> error + (double \<times> double)" where
  "histc_select_outer_bin_edges input min_v max_v =
     (if fp_eq min_v max_v then
        (case aminmax_all input of
           Inl e \<Rightarrow> Inl e
         | Inr (leftmost_edge, rightmost_edge) \<Rightarrow> histc_check leftmost_edge rightmost_edge)
      else histc_check min_v max_v)"

section \<open>Edge materialisation and the kernels\<close>

text \<open>
  Modelled from the spec: \<open>linspace_cpu_out\<close> is the "evenly-spaced-sequence generator
  producing K values between two finite bounds inclusive of both ends, written into a
  caller-provided buffer" (section 6). It resizes the buffer when the buffer does not
  hold \<open>steps\<close> elements and rejects a negative \<open>steps\<close>. The contract covers finite
  bounds only; for any other bound the model fills the buffer with NaN.
\<close>

definition linspace_values :: "double \<Rightarrow> double \<Rightarrow> nat \<Rightarrow> double list" where
  "linspace_values start stop steps =
     (case (start, stop) of
        (Finite a, Finite b) \<Rightarrow>
          if steps = 1 then [Finite a]
          else map (\<lambda>i. Finite (a + rat_of_nat i * ((b - a) / rat_of_nat (steps - 1)))) [0..<steps]
      | _ \<Rightarrow> replicate steps NaN)"

definition linspace_cpu_out :: "double \<Rightarrow> double \<Rightarrow> int \<Rightarrow> Tensor \<Rightarrow> error + Tensor" where
  "linspace_cpu_out start stop steps result =
     (if \<not> steps \<ge> 0 then Inl LinspaceNegativeSteps
      else
        let r = (if numel result \<noteq> nat steps then result\<lparr>sizes := [nat steps]\<rparr> else result)
        in Inr (r\<lparr>data := linspace_values start stop (nat steps)\<rparr>))"

text \<open>
  Modelled from the spec: \<open>copy_\<close> (here \<open>copy_inplace\<close>) copies the elements of the source into the
  destination buffer ("copied into caller-visible output buffers", section 4.3). Every
  call below comes after \<open>histogramdd_prepare_out\<close> has given the destination the
  shape of the source and after both were checked to have the element type of the
  input, so no broadcast and no conversion takes place.
\<close>

definition copy_inplace :: "Tensor \<Rightarrow> Tensor \<Rightarrow> Tensor" where
  "copy_inplace dst src = dst\<lparr>data := data src\<rparr>"

text \<open>
  \<open>histogramdd_stub\<close> and \<open>histogramdd_linear_stub\<close> are dispatch stubs: the kernels
  are registered elsewhere, and the entry points take them as parameters. A kernel
  receives the input, the weight, the density flag, the histogram buffer and the list
  of edge tensors (the linear one also the \<open>local_search\<close> flag) and fills the
  histogram buffer in place; it "does not mutate edges or weight" (section 4.5) and
  "cannot fail" (section 7). Its value here is the new contents of the histogram.
\<close>

type_synonym histogramdd_fn = "Tensor \<Rightarrow> Tensor option \<Rightarrow> bool \<Rightarrow> Tensor \<Rightarrow> Tensor list \<Rightarrow> double list"

type_synonym histogramdd_linear_fn = "Tensor \<Rightarrow> Tensor option \<Rightarrow> bool \<Rightarrow> Tensor \<Rightarrow> Tensor list \<Rightarrow> bool \<Rightarrow> double list"

section \<open>Entry points\<close>

definition allocate_bin_edges_tensors :: "Tensor \<Rightarrow> error + Tensor list" where
  "allocate_bin_edges_tensors self =
     (if \<not> dim_t self \<ge> 2 then Inl AllocInputDimTooSmall
      else Inr (replicate (last (sizes self)) (empty0 self)))"

text \<open>The loop \<open>bin_edges[dim].copy_(bins[dim])\<close> over \<open>dim = 0 .. bins.size() - 1\<close>.\<close>

definition copy_edges :: "Tensor list \<Rightarrow> Tensor list \<Rightarrow> Tensor list" where
  "copy_edges bin_edges_l bins = map2 copy_inplace bin_edges_l bins"

text \<open>\<open>histogramdd_out_cpu\<close>, the overload in which \<open>bins\<close> is a list of edge tensors.\<close>

definition histogramdd_out_cpu :: "histogramdd_fn \<Rightarrow> Tensor \<Rightarrow> Tensor list \<Rightarrow> Tensor option \<Rightarrow> bool \<Rightarrow> outs \<Rightarrow> (error + unit) \<times> outs" where
  "histogramdd_out_cpu histogramdd_stub self bins weight density out =
     (case histogramdd_check_inputs self bins weight of
        Inl e \<Rightarrow> (Inl e, out)
      | Inr _ \<Rightarrow>
          (case histogramdd_prepare_out_bins self bins out of
             (Inl e, out1) \<Rightarrow> (Inl e, out1)
           | (Inr _, out1) \<Rightarrow>
               let edges = copy_edges (bin_edges out1) bins
               in (Inr (), \<lparr>hist = (hist out1)\<lparr>data := histogramdd_stub self weight density (hist out1) edges\<rparr>,
                            bin_edges = edges\<rparr>)))"

text \<open>
  The loop of \<open>histogramdd_bin_edges_out_cpu\<close> over \<open>dim = 0 .. N - 1\<close>. The outer
  edges and the edge tensors have \<open>N\<close> elements each. When \<open>bin_ct\<close> has fewer, the
  source reads \<open>bin_ct[dim]\<close> past its end, which is undefined behaviour; the model
  stops there with an error.
\<close>

fun linspace_edges :: "double list \<Rightarrow> double list \<Rightarrow> int list \<Rightarrow> Tensor list \<Rightarrow> error + Tensor list" where
  "linspace_edges (l # ls) (r # rs) (k # ks) (t # ts) =
     (case linspace_cpu_out l r (k + 1) t of
        Inl e \<Rightarrow> Inl e
      | Inr t' \<Rightarrow>
          (case linspace_edges ls rs ks ts of
             Inl e \<Rightarrow> Inl e
           | Inr ts' \<Rightarrow> Inr (t' # ts')))"
| "linspace_edges (l # ls) (r # rs) [] (t # ts) = Inl IndexOutOfRange"
| "linspace_edges _ _ _ ts = Inr ts"

definition histogramdd_bin_edges_out_cpu :: "Tensor \<Rightarrow> int list \<Rightarrow> double list option \<Rightarrow> Tensor list \<Rightarrow> error + Tensor list" where
  "histogramdd_bin_edges_out_cpu self bin_ct range_opt bin_edges_out =
     (case size_last self of
        Inl e \<Rightarrow> Inl e
      | Inr N \<Rightarrow>
          let M = prod_list (butlast (sizes self));
              reshaped_self = reshape self [M, N]
          in case select_outer_bin_edges reshaped_self range_opt of
               Inl e \<Rightarrow> Inl e
             | Inr (first, second) \<Rightarrow> linspace_edges first second bin_ct bin_edges_out)"

definition histogramdd_bin_edges_cpu :: "Tensor \<Rightarrow> int list \<Rightarrow> double list option \<Rightarrow> error + Tensor list" where
  "histogramdd_bin_edges_cpu self bin_ct range_opt =
     (case allocate_bin_edges_tensors self of
        Inl e \<Rightarrow> Inl e
      | Inr bin_edges_out \<Rightarrow> histogramdd_bin_edges_out_cpu self bin_ct range_opt bin_edges_out)"

text \<open>\<open>histogramdd_out_cpu\<close>, the overload in which \<open>bins\<close> is a list of bin counts.\<close>

definition histogramdd_out_cpu_bin_ct :: "histogramdd_linear_fn \<Rightarrow> Tensor \<Rightarrow> int list \<Rightarrow> double list option \<Rightarrow> Tensor option \<Rightarrow> bool \<Rightarrow> outs \<Rightarrow> (error + unit) \<times> outs" where
  "histogramdd_out_cpu_bin_ct histogramdd_linear_stub self bin_ct range_opt weight density out =
     (case histogramdd_bin_edges_cpu self bin_ct range_opt of
        Inl e \<Rightarrow> (Inl e, out)
      | Inr bins \<Rightarrow>
          (case histogramdd_check_inputs self bins weight of
             Inl e \<Rightarrow> (Inl e, out)
           | Inr _ \<Rightarrow>
               (case histogramdd_prepare_out_bins self bins out of
                  (Inl e, out1) \<Rightarrow> (Inl e, out1)
                | (Inr _, out1) \<Rightarrow>
                    let edges = copy_edges (bin_edges out1) bins
                    in (Inr (), \<lparr>hist = (hist out1)\<lparr>data := histogramdd_linear_stub self weight density (hist out1) edges True\<rparr>,
                                 bin_edges = edges\<rparr>))))"

text \<open>
  The one-dimensional entry points take the two output tensors \<open>hist\<close> and
  \<open>bin_edges\<close>; \<open>TensorList bins_out = bin_edges\<close> is a one-element list that refers
  to the same tensor, so what the callee does to the list's element is done to
  \<open>bin_edges\<close>.
\<close>

definition histogram_out_cpu :: "histogramdd_fn \<Rightarrow> Tensor \<Rightarrow> Tensor \<Rightarrow> Tensor option \<Rightarrow> bool \<Rightarrow> Tensor \<Rightarrow> Tensor \<Rightarrow> (error + unit) \<times> Tensor \<times> Tensor" where
  "histogram_out_cpu histogramdd_stub self bins weight density hist_t bin_edges_t =
     (let reshaped_self = reshape self [numel self, 1];
          reshaped_weight = map_option (\<lambda>w. reshape w [numel w]) weight;
          (r, out') = histogramdd_out_cpu histogramdd_stub reshaped_self [bins] reshaped_weight density
                        \<lparr>hist = hist_t, bin_edges = [bin_edges_t]\<rparr>
      in (r, hist out', bin_edges out' ! 0))"

definition histogram_out_cpu_bin_ct :: "histogramdd_linear_fn \<Rightarrow> Tensor \<Rightarrow> int \<Rightarrow> double list option \<Rightarrow> Tensor option \<Rightarrow> bool \<Rightarrow> Tensor \<Rightarrow> Tensor \<Rightarrow> (error + unit) \<times> Tensor \<times> Tensor" where
  "histogram_out_cpu_bin_ct histogramdd_linear_stub self bin_ct range_opt weight density hist_t bin_edges_t =
     (let reshaped_self = reshape self [numel self, 1];
          reshaped_weight = map_option (\<lambda>w. reshape w [numel w]) weight
      in case histogramdd_prepare_out reshaped_self [bin_ct] \<lparr>hist = hist_t, bin_edges = [bin_edges_t]\<rparr> of
           (Inl e, out1) \<Rightarrow> (Inl e, hist out1, bin_edges out1 ! 0)
         | (Inr _, out1) \<Rightarrow>
             (case select_outer_bin_edges reshaped_self range_opt of
                Inl e \<Rightarrow> (Inl e, hist out1, bin_edges out1 ! 0)
              | Inr (first, second) \<Rightarrow>
                  (case linspace_cpu_out (first ! 0) (second ! 0) (bin_ct + 1) (bin_edges out1 ! 0) of
                     Inl e \<Rightarrow> (Inl e, hist out1, bin_edges out1 ! 0)
                   | Inr edges \<Rightarrow>
                       (case histogramdd_check_inputs reshaped_self [edges] reshaped_weight of
                          Inl e \<Rightarrow> (Inl e, hist out1, edges)
                        | Inr _ \<Rightarrow>
                            (Inr (),
                             (hist out1)\<lparr>data := histogramdd_linear_stub reshaped_self reshaped_weight density (hist out1) [edges] True\<rparr>,
                             edges)))))"

text \<open>
  \<open>histogram_histc_cpu_out\<close>: the edge tensor is a local of the function and \<open>hist\<close>
  is the only output.
\<close>

definition histogram_histc_cpu_out :: "histogramdd_linear_fn \<Rightarrow> Tensor \<Rightarrow> int \<Rightarrow> double \<Rightarrow> double \<Rightarrow> Tensor \<Rightarrow> (error + unit) \<times> Tensor" where
  "histogram_histc_cpu_out histogramdd_linear_stub self bin_ct min_v max_v hist_t =
     (let reshaped = reshape self [numel self, 1]
      in case histogramdd_prepare_out reshaped [bin_ct] \<lparr>hist = hist_t, bin_edges = [empty0 self]\<rparr> of
           (Inl e, out1) \<Rightarrow> (Inl e, hist out1)
         | (Inr _, out1) \<Rightarrow>
             (case histc_select_outer_bin_edges self min_v max_v of
                Inl e \<Rightarrow> (Inl e, hist out1)
              | Inr (first, second) \<Rightarrow>
                  (case linspace_cpu_out first second (bin_ct + 1) (bin_edges out1 ! 0) of
                     Inl e \<Rightarrow> (Inl e, hist out1)
                   | Inr edges \<Rightarrow>
                       (case histogramdd_check_inputs reshaped [edges] None of
                          Inl e \<Rightarrow> (Inl e, hist out1)
                        | Inr _ \<Rightarrow>
                            (Inr (),
                             (hist out1)\<lparr>data := histogramdd_linear_stub reshaped None False (hist out1) [edges] False\<rparr>)))))"

section \<open>The accumulators\<close>

text \<open>
  Modelled from the spec: the kernels registered for the two stubs are not part of
  this file. Section 4.5 gives the generic one: "for each of the M sample points, for
  each dimension d independently, locate the bin index i_d such that
  edges[d][i_d] <= x_d < edges[d][i_d+1], with the special rule that the final bin
  (i_d = K_d - 1) is closed on both ends"; "points whose coordinate in any dimension
  falls strictly outside [edges[d][0], edges[d][K_d]] are skipped", "the entire point is
  dropped if any coordinate is out of range"; "the per-dimension indices are linearized
  in row-major order over (K_0, ..., K_{N-1}) and the point's weight (default 1) is added
  into that cell". The lookup is a search over the edge sequence from its first bin.
\<close>

definition in_bin :: "double list \<Rightarrow> double \<Rightarrow> nat \<Rightarrow> bool" where
  "in_bin edges x i =
     (let K = length edges - 1
      in fp_le (edges ! i) x \<and> (fp_lt x (edges ! (i + 1)) \<or> (i = K - 1 \<and> fp_eq x (edges ! K))))"

definition bin_index :: "double list \<Rightarrow> double \<Rightarrow> nat option" where
  "bin_index edges x =
     (let K = length edges - 1
      in if fp_lt x (edges ! 0) \<or> fp_lt (edges ! K) x then None
         else find (in_bin edges x) [0..<K])"


definition point_bins :: "Tensor list \<Rightarrow> double list \<Rightarrow> nat list option" where
  "point_bins edges p = those (map2 (\<lambda>e x. bin_index (data e) x) edges p)"

text \<open>The M points of the input, all dimensions but the innermost flattened, and their weights.\<close>

definition sample_points :: "Tensor \<Rightarrow> double list list" where
  "sample_points input =
     (let N = last (sizes input); M = prod_list (butlast (sizes input))
      in map (\<lambda>i. take N (drop (i * N) (data input))) [0..<M])"

definition sample_weights :: "Tensor option \<Rightarrow> nat \<Rightarrow> double list" where
  "sample_weights weight M = (case weight of None \<Rightarrow> replicate M (Finite 1) | Some w \<Rightarrow> data w)"

definition linear_index :: "nat list \<Rightarrow> nat list \<Rightarrow> nat" where
  "linear_index ks idx = foldl (\<lambda>acc (k, i). acc * k + i) 0 (zip ks idx)"

fun accumulate :: "(double list \<Rightarrow> nat list option) \<Rightarrow> nat list \<Rightarrow> (double list \<times> double) list \<Rightarrow> double list \<Rightarrow> double list" where
  "accumulate bin_of ks [] h = h"
| "accumulate bin_of ks ((p, w) # ps) h =
     accumulate bin_of ks ps
       (case bin_of p of
          None \<Rightarrow> h
        | Some idx \<Rightarrow> (let c = linear_index ks idx in h[c := fp_add (h ! c) w]))"

definition histogramdd_accumulate :: "Tensor \<Rightarrow> Tensor option \<Rightarrow> Tensor \<Rightarrow> Tensor list \<Rightarrow> double list" where
  "histogramdd_accumulate input weight hist_t edges =
     (let ps = sample_points input
      in accumulate (point_bins edges) (sizes hist_t) (zip ps (sample_weights weight (length ps)))
           (replicate (numel hist_t) (Finite 0)))"

text \<open>
  Modelled from the spec: section 4.6 gives the linear accumulator, which "computes the
  bin index directly as floor((x_d - low_d) / bin_width_d)", "clamped into [0, K_d-1]",
  "still dropping the point if x_d is outside [low_d, high_d]". The bounds are the first
  and the last edge and the width is their distance divided by the bin count. A
  coordinate that is not finite has no index and is dropped.
\<close>

definition linear_bin_index :: "double list \<Rightarrow> double \<Rightarrow> nat option" where
  "linear_bin_index edges x =
     (if length edges < 2 then None
      else
        case (edges ! 0, edges ! (length edges - 1), x) of
          (Finite low, Finite high, Finite v) \<Rightarrow>
            if v < low \<or> high < v then None
            else
              let K = int (length edges) - 1;
                  pos = \<lfloor>(v - low) / ((high - low) / rat_of_int K)\<rfloor>
              in Some (nat (max 0 (min (K - 1) pos)))
        | _ \<Rightarrow> None)"

definition linear_point_bins :: "Tensor list \<Rightarrow> double list \<Rightarrow> nat list option" where
  "linear_point_bins edges p = those (map2 (\<lambda>e x. linear_bin_index (data e) x) edges p)"

definition histogramdd_linear_accumulate :: "Tensor \<Rightarrow> Tensor option \<Rightarrow> Tensor \<Rightarrow> Tensor list \<Rightarrow> double list" where
  "histogramdd_linear_accumulate input weight hist_t edges =
     (let ps = sample_points input
      in accumulate (linear_point_bins edges) (sizes hist_t) (zip ps (sample_weights weight (length ps)))
           (replicate (numel hist_t) (Finite 0)))"

section \<open>Density and the two kernels\<close>

text \<open>\<open>a * b\<close> and \<open>a / b\<close> on doubles; the sign of a zero is not modelled and a zero divisor counts as \<open>+0\<close>.\<close>

definition fp_negative :: "double \<Rightarrow> bool" where
  "fp_negative x = fp_lt x (Finite 0)"

definition fp_mul :: "double \<Rightarrow> double \<Rightarrow> double" where
  "fp_mul x y =
     (case (x, y) of
        (Finite a, Finite b) \<Rightarrow> Finite (a * b)
      | _ \<Rightarrow>
          if isnan x \<or> isnan y \<or> x = Finite 0 \<or> y = Finite 0 then NaN
          else if fp_negative x = fp_negative y then PosInf else NegInf)"

definition fp_div :: "double \<Rightarrow> double \<Rightarrow> double" where
  "fp_div x y =
     (case (x, y) of
        (Finite a, Finite b) \<Rightarrow>
          if b \<noteq> 0 then Finite (a / b)
          else if a = 0 then NaN else if 0 < a then PosInf else NegInf
      | (Finite a, _) \<Rightarrow> if isnan y then NaN else Finite 0
      | (_, Finite b) \<Rightarrow>
          if isnan x then NaN else if fp_negative x = (b < 0) then PosInf else NegInf
      | _ \<Rightarrow> NaN)"

text \<open>
  Modelled from the spec: section 4.7 gives the normaliser, "applied only when the
  density flag is set, after accumulation completes": with \<open>W\<close> the sum over all
  cells, "for each cell, new_value = old_value / (W * volume_of_cell), where
  volume_of_cell" is the product over the dimensions of the widths of the cell's bins;
  "if W is 0 ... the result is left" as it is. A cell of the row-major buffer is found
  from its position by \<open>unravel_index\<close>.
\<close>

fun unravel_index :: "nat list \<Rightarrow> nat \<Rightarrow> nat list" where
  "unravel_index [] c = []"
| "unravel_index (k # ks) c = (c div prod_list ks) mod k # unravel_index ks c"

definition cell_volume :: "Tensor list \<Rightarrow> nat list \<Rightarrow> double" where
  "cell_volume edges idx =
     foldl fp_mul (Finite 1) (map2 (\<lambda>e i. fp_sub (data e ! (i + 1)) (data e ! i)) edges idx)"

definition density_normalize :: "nat list \<Rightarrow> Tensor list \<Rightarrow> double list \<Rightarrow> double list" where
  "density_normalize ks edges h =
     (let W = foldl fp_add (Finite 0) h
      in if fp_eq W (Finite 0) then h
         else map (\<lambda>c. fp_div (h ! c) (fp_mul W (cell_volume edges (unravel_index ks c)))) [0..<length h])"

text \<open>
  Modelled from the spec: the kernels behind \<open>histogramdd_stub\<close> and
  \<open>histogramdd_linear_stub\<close>, as the specification describes them: accumulation
  (section 4.5, or section 4.6 for the linear kernel), then normalisation when the
  density flag is set. The specification gives \<open>local_search\<close> no effect on the
  result. The examples below run the entry points with these two kernels.
\<close>

definition histogramdd_kernel :: histogramdd_fn where
  "histogramdd_kernel self weight density hist_t edges =
     (let h = histogramdd_accumulate self weight hist_t edges
      in if density then density_normalize (sizes hist_t) edges h else h)"

definition histogramdd_linear_kernel :: histogramdd_linear_fn where
  "histogramdd_linear_kernel self weight density hist_t edges local_search =
     (let h = histogramdd_linear_accumulate self weight hist_t edges
      in if density then density_normalize (sizes hist_t) edges h else h)"

section \<open>Properties of input validation\<close>

lemma check_bins_ok:
  "(check_bins t d bins = Inr ()) = (\<forall>b \<in> set bins. dim_t b = 1 \<and> numel b \<ge> 1 \<and> dtype b = t)"
  by (induction bins arbitrary: d) auto

lemma check_bins_error: "check_bins t d bins = Inl e \<Longrightarrow> invalid_argument e"
  by (induction bins arbitrary: d) (auto split: if_splits)

lemma check_weight_ok:
  "(check_weight input weight = Inr ()) =
     (case weight of None \<Rightarrow> True
      | Some w \<Rightarrow> dtype w = dtype input \<and> (if sizes w = [] then [1] else sizes w) = butlast (sizes input))"
  by (auto simp: check_weight_def Let_def split: option.splits)

lemma check_weight_error: "check_weight input weight = Inl e \<Longrightarrow> invalid_argument e"
  by (auto simp: check_weight_def Let_def split: option.splits if_splits)

lemma check_inputs_ok:
  "(histogramdd_check_inputs input bins weight = Inr ()) = inputs_valid input bins weight"
  unfolding histogramdd_check_inputs_def inputs_valid_def Let_def
  using check_bins_ok [of "dtype input" 0 bins] check_weight_ok [of input weight]
  by (auto split: sum.splits)

lemma check_inputs_error:
  "histogramdd_check_inputs input bins weight = Inl e \<Longrightarrow> invalid_argument e"
  unfolding histogramdd_check_inputs_def Let_def
  by (auto split: sum.splits if_splits dest: check_bins_error check_weight_error)

text \<open>
  Claim C6. \<open>histogramdd_check_inputs\<close> fails, with an \<open>InvalidArgument\<close> error, exactly
  when one of the requirements of \<open>inputs_valid\<close> is violated: the input has rank at
  least 2; there are as many edge sequences as the innermost extent of the input; every
  edge sequence is one-dimensional, has at least one element and has the element type
  of the input; a weight has the element type of the input and the shape of the input
  without its innermost dimension, a scalar weight counting as shape \<open>[1]\<close>. Otherwise
  it returns normally. The function takes its three arguments by constant reference
  and its value is the outcome alone: it has no output to change.
\<close>

theorem check_inputs_fails_iff_invalid:
  "(\<exists>e. histogramdd_check_inputs input bins weight = Inl e \<and> invalid_argument e)
     = (\<not> inputs_valid input bins weight)
   \<and> (histogramdd_check_inputs input bins weight = Inr ()) = inputs_valid input bins weight"
proof -
  have "histogramdd_check_inputs input bins weight = Inr () \<or>
        (\<exists>e. histogramdd_check_inputs input bins weight = Inl e)"
    by (cases "histogramdd_check_inputs input bins weight") auto
  then show ?thesis
    using check_inputs_ok [of input bins weight] check_inputs_error [of input bins weight]
    by auto
qed

theorem check_inputs_fails_iff_invalid_witness:
  "histogramdd_check_inputs \<lparr>dtype = kDouble, sizes = [3, 1], data = [Finite 0, Finite 0, Finite 1]\<rparr>
     [\<lparr>dtype = kDouble, sizes = [3], data = [Finite 0, Finite (1/2), Finite 1]\<rparr>]
     (Some \<lparr>dtype = kDouble, sizes = [3], data = [Finite 2, Finite 3, Finite 5]\<rparr>) = Inr ()
   \<and> (\<exists>e. histogramdd_check_inputs \<lparr>dtype = kDouble, sizes = [3, 1], data = [Finite 0, Finite 0, Finite 1]\<rparr>
     [\<lparr>dtype = kFloat, sizes = [3], data = [Finite 0, Finite (1/2), Finite 1]\<rparr>]
     None = Inl e \<and> invalid_argument e)"
  using check_inputs_fails_iff_invalid [of "\<lparr>dtype = kDouble, sizes = [3, 1], data = [Finite 0, Finite 0, Finite 1]\<rparr>"
     "[\<lparr>dtype = kDouble, sizes = [3], data = [Finite 0, Finite (1/2), Finite 1]\<rparr>]"
     "Some \<lparr>dtype = kDouble, sizes = [3], data = [Finite 2, Finite 3, Finite 5]\<rparr>"]
    check_inputs_fails_iff_invalid [of "\<lparr>dtype = kDouble, sizes = [3, 1], data = [Finite 0, Finite 0, Finite 1]\<rparr>"
     "[\<lparr>dtype = kFloat, sizes = [3], data = [Finite 0, Finite (1/2), Finite 1]\<rparr>]" None]
  by (simp add: inputs_valid_def dim_t_def numel_def)

section \<open>Properties of output preparation\<close>

lemma sizes_resize_output [simp]: "sizes (resize_output t shape) = shape"
  by (simp add: resize_output_def)

lemma dtype_resize_output [simp]: "dtype (resize_output t shape) = dtype t"
  by (simp add: resize_output_def)

lemma prepare_edges_length:
  "length (snd (prepare_edges t d ks es)) = length es"
  by (induction t d ks es rule: prepare_edges.induct) (auto split: prod.splits)

lemma prepare_edges_success_iff:
  "length ks = length es \<Longrightarrow>
   (fst (prepare_edges t d ks es) = Inr ()) = ((\<forall>k \<in> set ks. k > 0) \<and> (\<forall>e \<in> set es. dtype e = t))"
proof (induction ks es arbitrary: d rule: list_induct2)
  case Nil
  then show ?case by simp
next
  case (Cons k ks e es)
  then show ?case by (auto simp: case_prod_unfold Let_def)
qed

lemma prepare_edges_success_value:
  "length ks = length es \<Longrightarrow> fst (prepare_edges t d ks es) = Inr () \<Longrightarrow>
   snd (prepare_edges t d ks es) = map2 (\<lambda>k e. resize_output e [nat (k + 1)]) ks es"
proof (induction ks es arbitrary: d rule: list_induct2)
  case Nil
  then show ?case by simp
next
  case (Cons k ks e es)
  then show ?case by (auto simp: case_prod_unfold Let_def split: if_splits)
qed

lemma prepare_edges_error:
  "fst (prepare_edges t d ks es) = Inl err \<Longrightarrow> invalid_argument err"
  by (induction t d ks es arbitrary: err rule: prepare_edges.induct) (auto split: prod.splits if_splits)

lemma sizes_map2_resize:
  "length ks = length es \<Longrightarrow>
   map sizes (map2 (\<lambda>k e. resize_output e [nat (k + 1)]) ks es) = map (\<lambda>k. [nat (k + 1)]) ks"
  by (induction ks es rule: list_induct2) auto


lemma prepare_out_success:
  assumes "histogramdd_prepare_out input bin_ct out = (Inr (), out')"
  shows "sizes (hist out') = map nat bin_ct"
    and "map sizes (bin_edges out') = map (\<lambda>k. [nat (k + 1)]) bin_ct"
    and "\<forall>k \<in> set bin_ct. k > 0"
    and "dtype (hist out') = dtype input"
    and "\<forall>e \<in> set (bin_edges out'). dtype e = dtype input"
    and "length bin_ct = last (sizes input)"
    and "bin_edges out' = map2 (\<lambda>k e. resize_output e [nat (k + 1)]) bin_ct (bin_edges out)"
    and "hist out' = resize_output (hist out) (map nat bin_ct)"
proof -
  from assms obtain N where N: "size_last input = Inr N"
    by (auto simp: histogramdd_prepare_out_def split: sum.splits)
  from assms N have len: "length bin_ct = N" "length (bin_edges out) = N"
    and dt: "dtype input = dtype (hist out)"
    by (auto simp: histogramdd_prepare_out_def split: sum.splits if_splits prod.splits)
  from assms N len dt have ok: "fst (prepare_edges (dtype input) 0 bin_ct (bin_edges out)) = Inr ()"
    and out': "out' = \<lparr>hist = resize_output (hist out) (map nat bin_ct),
                       bin_edges = snd (prepare_edges (dtype input) 0 bin_ct (bin_edges out))\<rparr>"
    by (auto simp: histogramdd_prepare_out_def split: sum.splits if_splits prod.splits)
  have eq: "length bin_ct = length (bin_edges out)" using len by simp
  have val: "bin_edges out' = map2 (\<lambda>k e. resize_output e [nat (k + 1)]) bin_ct (bin_edges out)"
    using prepare_edges_success_value [OF eq ok] out' by simp
  show "bin_edges out' = map2 (\<lambda>k e. resize_output e [nat (k + 1)]) bin_ct (bin_edges out)"
    by (rule val)
  show "hist out' = resize_output (hist out) (map nat bin_ct)" using out' by simp
  show "sizes (hist out') = map nat bin_ct" using out' by simp
  show "dtype (hist out') = dtype input" using out' dt by simp
  show "\<forall>k \<in> set bin_ct. k > 0" using prepare_edges_success_iff [OF eq] ok by blast
  have dts: "\<forall>e \<in> set (bin_edges out). dtype e = dtype input"
    using prepare_edges_success_iff [OF eq] ok by blast
  show "map sizes (bin_edges out') = map (\<lambda>k. [nat (k + 1)]) bin_ct"
    unfolding val using sizes_map2_resize [OF eq] by simp
  show "\<forall>e \<in> set (bin_edges out'). dtype e = dtype input"
    unfolding val using dts by (auto dest!: set_zip_rightD)
  show "length bin_ct = last (sizes input)"
    using len N by (auto simp: size_last_def split: list.splits)
qed

lemma prepare_out_fails_iff:
  assumes "sizes input \<noteq> []" "length bin_ct = last (sizes input)"
    "length (bin_edges out) = last (sizes input)"
  shows "(\<exists>e out'. histogramdd_prepare_out input bin_ct out = (Inl e, out') \<and> invalid_argument e)
       = ((\<exists>k \<in> set bin_ct. k \<le> 0) \<or> dtype (hist out) \<noteq> dtype input
          \<or> (\<exists>e \<in> set (bin_edges out). dtype e \<noteq> dtype input))"
proof -
  have N: "size_last input = Inr (last (sizes input))"
    using assms(1) by (auto simp: size_last_def split: list.splits)
  have eq: "length bin_ct = length (bin_edges out)" using assms by simp
  show ?thesis
  proof (cases "dtype input = dtype (hist out)")
    case False
    then show ?thesis using N assms by (auto simp: histogramdd_prepare_out_def)
  next
    case True
    obtain r es' where pe: "prepare_edges (dtype input) 0 bin_ct (bin_edges out) = (r, es')"
      by (cases "prepare_edges (dtype input) 0 bin_ct (bin_edges out)")
    show ?thesis
    proof (cases r)
      case (Inl err)
      have inv: "invalid_argument err"
        using prepare_edges_error [of "dtype input" 0 bin_ct "bin_edges out" err] pe Inl by simp
      have bad: "(\<exists>k \<in> set bin_ct. k \<le> 0) \<or> (\<exists>e \<in> set (bin_edges out). dtype e \<noteq> dtype input)"
        using prepare_edges_success_iff [OF eq, of "dtype input" 0] pe Inl by (auto simp: not_less)
      have L: "histogramdd_prepare_out input bin_ct out = (Inl err, out\<lparr>bin_edges := es'\<rparr>)"
        using N assms True pe Inl by (simp add: histogramdd_prepare_out_def)
      show ?thesis using inv bad by (auto simp: L)
    next
      case (Inr u)
      have good: "(\<forall>k \<in> set bin_ct. k > 0) \<and> (\<forall>e \<in> set (bin_edges out). dtype e = dtype input)"
        using prepare_edges_success_iff [OF eq, of "dtype input" 0] pe Inr by auto
      have L: "histogramdd_prepare_out input bin_ct out =
                 (Inr (), \<lparr>hist = resize_output (hist out) (map nat bin_ct), bin_edges = es'\<rparr>)"
        using N assms True pe Inr by (simp add: histogramdd_prepare_out_def)
      show ?thesis using good True by (auto simp: L not_le)
    qed
  qed
qed

section \<open>Properties of the entry point with explicit edges\<close>

lemma one_dim_sizes: "dim_t b = 1 \<Longrightarrow> sizes b = [numel b]"
  by (cases "sizes b") (auto simp: dim_t_def numel_def)

lemma copy_edges_same:
  assumes "length es = length bins"
    and "map sizes es = map sizes bins" and "map dtype es = map dtype bins"
  shows "copy_edges es bins = bins"
  using assms unfolding copy_edges_def
  by (induction es bins rule: list_induct2) (auto simp: copy_inplace_def)

text \<open>After input validation and output preparation the edge buffers differ from the edge tensors in their elements at most.\<close>

lemma prepared_edges_copy:
  assumes valid: "inputs_valid self bins weight"
    and prep: "histogramdd_prepare_out_bins self bins out = (Inr (), out1)"
  shows "copy_edges (bin_edges out1) bins = bins"
proof -
  note p = prepare_out_success [OF prep [unfolded histogramdd_prepare_out_bins_def]]
  have one: "\<forall>b \<in> set bins. dim_t b = 1 \<and> dtype b = dtype self"
    using valid by (auto simp: inputs_valid_def)
  have sz: "map sizes bins = map (\<lambda>b. [numel b]) bins"
    using one by (auto simp: one_dim_sizes)
  have "map sizes (bin_edges out1) = map sizes bins"
    using p(2) sz by simp
  moreover have "map dtype (bin_edges out1) = map dtype bins"
  proof -
    have "length (bin_edges out1) = length bins" using p(2) by (metis length_map)
    then show ?thesis using p(5) one
      by (auto simp: list_eq_iff_nth_eq)
  qed
  moreover have "length (bin_edges out1) = length bins" using p(2) by (metis length_map)
  ultimately show ?thesis using copy_edges_same by blast
qed

lemma histogramdd_out_cpu_success:
  assumes "histogramdd_out_cpu stub self bins weight density out = (Inr (), out')"
  shows "inputs_valid self bins weight"
    and "bin_edges out' = bins"
    and "hist out' = (resize_output (hist out) (map (\<lambda>b. numel b - 1) bins))
            \<lparr>data := stub self weight density (resize_output (hist out) (map (\<lambda>b. numel b - 1) bins)) bins\<rparr>"
    and "\<forall>b \<in> set bins. numel b \<ge> 2"
proof -
  from assms have chk: "histogramdd_check_inputs self bins weight = Inr ()"
    by (auto simp: histogramdd_out_cpu_def split: sum.splits)
  then show valid: "inputs_valid self bins weight" by (simp add: check_inputs_ok)
  from assms chk obtain out1 where prep: "histogramdd_prepare_out_bins self bins out = (Inr (), out1)"
    and out': "out' = \<lparr>hist = (hist out1)\<lparr>data := stub self weight density (hist out1) (copy_edges (bin_edges out1) bins)\<rparr>,
                       bin_edges = copy_edges (bin_edges out1) bins\<rparr>"
    by (auto simp: histogramdd_out_cpu_def Let_def split: sum.splits prod.splits)
  note p = prepare_out_success [OF prep [unfolded histogramdd_prepare_out_bins_def]]
  have cp: "copy_edges (bin_edges out1) bins = bins" by (rule prepared_edges_copy [OF valid prep])
  show "bin_edges out' = bins" using out' cp by simp
  have nat_eq: "map nat (map (\<lambda>t. int (numel t) - 1) bins) = map (\<lambda>b. numel b - 1) bins"
    by auto
  have h1: "hist out1 = resize_output (hist out) (map (\<lambda>b. numel b - 1) bins)"
    using p(8) unfolding nat_eq .
  show "hist out' = (resize_output (hist out) (map (\<lambda>b. numel b - 1) bins))
            \<lparr>data := stub self weight density (resize_output (hist out) (map (\<lambda>b. numel b - 1) bins)) bins\<rparr>"
    using out' cp h1 by simp
  show "\<forall>b \<in> set bins. numel b \<ge> 2" using p(3) by auto
qed


lemma length_linspace_values [simp]: "length (linspace_values a b n) = n"
  by (cases a; cases b) (auto simp: linspace_values_def)

lemma linspace_cpu_out_empty0:
  "linspace_cpu_out l r steps (empty0 self) = Inr t' \<Longrightarrow>
   steps \<ge> 0 \<and> t' = \<lparr>dtype = dtype self, sizes = [nat steps], data = linspace_values l r (nat steps)\<rparr>"
  by (auto simp: linspace_cpu_out_def empty0_def numel_def Let_def split: if_splits)

lemma linspace_edges_success:
  "length ls = length ts \<Longrightarrow> length rs = length ts \<Longrightarrow> set ts \<subseteq> {empty0 self} \<Longrightarrow>
   linspace_edges ls rs ks ts = Inr ts' \<Longrightarrow>
   length ts \<le> length ks \<and> length ts' = length ts \<and>
   (\<forall>d < length ts. ks ! d + 1 \<ge> 0 \<and>
      ts' ! d = \<lparr>dtype = dtype self, sizes = [nat (ks ! d + 1)],
                 data = linspace_values (ls ! d) (rs ! d) (nat (ks ! d + 1))\<rparr>)"
proof (induction ls rs ks ts arbitrary: ts' rule: linspace_edges.induct)
  case (1 l ls r rs k ks t ts)
  from "1.prems" have t: "t = empty0 self" by simp
  from "1.prems" obtain t' where t': "linspace_cpu_out l r (k + 1) t = Inr t'"
    by (auto split: sum.splits)
  with "1.prems" obtain ts1 where ts1: "linspace_edges ls rs ks ts = Inr ts1" and eq: "ts' = t' # ts1"
    by (auto split: sum.splits)
  have ih: "length ts \<le> length ks \<and> length ts1 = length ts \<and>
   (\<forall>d < length ts. ks ! d + 1 \<ge> 0 \<and>
      ts1 ! d = \<lparr>dtype = dtype self, sizes = [nat (ks ! d + 1)],
                 data = linspace_values (ls ! d) (rs ! d) (nat (ks ! d + 1))\<rparr>)"
    using "1.IH" [OF t' _ _ _ ts1] "1.prems" by simp
  note hd = linspace_cpu_out_empty0 [OF t' [unfolded t]]
  show ?case
  proof (intro conjI allI impI)
    show "length (t # ts) \<le> length (k # ks)" using ih by simp
    show "length ts' = length (t # ts)" using ih eq by simp
  next
    fix d assume "d < length (t # ts)"
    then show "0 \<le> (k # ks) ! d + 1" using ih hd by (cases d) auto
  next
    fix d assume "d < length (t # ts)"
    then show "ts' ! d = \<lparr>dtype = dtype self, sizes = [nat ((k # ks) ! d + 1)],
                 data = linspace_values ((l # ls) ! d) ((r # rs) ! d) (nat ((k # ks) ! d + 1))\<rparr>"
      using ih hd eq by (cases d) auto
  qed
next
  case (2 l ls r rs t ts)
  then show ?case by simp
qed auto

section \<open>Properties of the outer bin edges\<close>

lemma check_outer_edges_success_iff:
  "length ls = length rs \<Longrightarrow>
   (\<exists>p. check_outer_edges d ls rs = Inr p)
     = (\<forall>i < length ls. isfinite (ls ! i) \<and> isfinite (rs ! i) \<and> fp_le (ls ! i) (rs ! i))"
proof (induction ls rs arbitrary: d rule: list_induct2)
  case Nil
  then show ?case by simp
next
  case (Cons l ls r rs)
  have "(\<forall>i < length (l # ls). isfinite ((l # ls) ! i) \<and> isfinite ((r # rs) ! i) \<and> fp_le ((l # ls) ! i) ((r # rs) ! i))
        = ((isfinite l \<and> isfinite r \<and> fp_le l r) \<and>
           (\<forall>i < length ls. isfinite (ls ! i) \<and> isfinite (rs ! i) \<and> fp_le (ls ! i) (rs ! i)))"
    by (auto simp: less_Suc_eq_0_disj)
  then show ?case using Cons.IH [of "Suc d"]
    by (auto split: sum.splits)
qed

lemma check_outer_edges_value:
  "length ls = length rs \<Longrightarrow> check_outer_edges d ls rs = Inr (ls', rs') \<Longrightarrow>
   length ls' = length ls \<and> length rs' = length ls \<and>
   (\<forall>i < length ls.
      ls' ! i = (if fp_eq (ls ! i) (rs ! i) then fp_sub (ls ! i) (Finite (1/2)) else ls ! i) \<and>
      rs' ! i = (if fp_eq (ls ! i) (rs ! i) then fp_add (rs ! i) (Finite (1/2)) else rs ! i))"
proof (induction ls rs arbitrary: d ls' rs' rule: list_induct2)
  case Nil
  then show ?case by simp
next
  case (Cons l ls r rs)
  from Cons.prems obtain ls1 rs1 where rec: "check_outer_edges (Suc d) ls rs = Inr (ls1, rs1)"
    and l': "ls' = (if fp_eq l r then fp_sub l (Finite (1/2)) else l) # ls1"
    and r': "rs' = (if fp_eq l r then fp_add r (Finite (1/2)) else r) # rs1"
    by (auto split: sum.splits if_splits)
  from Cons.IH [OF rec] show ?case
    by (auto simp: l' r' less_Suc_eq_0_disj)
qed













lemma select_outer_bin_edges_success:
  assumes "sizes input = [M, N]" and "select_outer_bin_edges input range_opt = Inr (ls, rs)"
  shows "length ls = N" and "length rs = N"
    and "\<forall>d < N. isfinite (fst (outer_bound input range_opt d)) \<and>
                  isfinite (snd (outer_bound input range_opt d)) \<and>
                  fp_le (fst (outer_bound input range_opt d)) (snd (outer_bound input range_opt d))"
    and "\<forall>d < N. (ls ! d, rs ! d) = expand_empty_range (outer_bound input range_opt d)"
proof -
  let ?L = "map (\<lambda>d. fst (outer_bound input range_opt d)) [0..<N]"
  let ?R = "map (\<lambda>d. snd (outer_bound input range_opt d)) [0..<N]"
  have res: "resolve_outer_edges input range_opt = Inr (?L, ?R)"
    using assms
    by (auto simp: select_outer_bin_edges_def resolve_outer_edges_def outer_bound_def
        infer_bin_edges_from_input_def map_replicate_const dim_t_def
        split: option.splits if_splits sum.splits)
  then have chk: "check_outer_edges 0 ?L ?R = Inr (ls, rs)"
    using assms by (simp add: select_outer_bin_edges_def dim_t_def)
  have len: "length ?L = length ?R" by simp
  note v = check_outer_edges_value [OF len chk]
  show "length ls = N" "length rs = N" using v by simp_all
  show "\<forall>d < N. isfinite (fst (outer_bound input range_opt d)) \<and>
                  isfinite (snd (outer_bound input range_opt d)) \<and>
                  fp_le (fst (outer_bound input range_opt d)) (snd (outer_bound input range_opt d))"
    using check_outer_edges_success_iff [OF len, of 0] chk by simp
  show "\<forall>d < N. (ls ! d, rs ! d) = expand_empty_range (outer_bound input range_opt d)"
    using v by (simp add: expand_empty_range_def)
qed






section \<open>Properties of the pipeline with bin counts\<close>


lemma histogramdd_bin_edges_cpu_success:
  assumes "histogramdd_bin_edges_cpu self bin_ct range_opt = Inr bins"
  shows "dim_t self \<ge> 2"
    and "\<exists>ls rs. select_outer_bin_edges
                    (reshape self [prod_list (butlast (sizes self)), last (sizes self)]) range_opt = Inr (ls, rs) \<and>
           (\<forall>d < last (sizes self). bin_ct ! d + 1 \<ge> 0 \<and>
              bins ! d = \<lparr>dtype = dtype self, sizes = [nat (bin_ct ! d + 1)],
                           data = linspace_values (ls ! d) (rs ! d) (nat (bin_ct ! d + 1))\<rparr>)"
    and "length bins = last (sizes self)"
    and "last (sizes self) \<le> length bin_ct"
proof -
  let ?N = "last (sizes self)"
  let ?r = "reshape self [prod_list (butlast (sizes self)), ?N]"
  from assms show d2: "dim_t self \<ge> 2"
    by (auto simp: histogramdd_bin_edges_cpu_def allocate_bin_edges_tensors_def split: if_splits)
  then have sl: "size_last self = Inr ?N"
    by (auto simp: size_last_def dim_t_def split: list.splits)
  from assms d2 have out: "histogramdd_bin_edges_out_cpu self bin_ct range_opt (replicate ?N (empty0 self)) = Inr bins"
    by (auto simp: histogramdd_bin_edges_cpu_def allocate_bin_edges_tensors_def)
  then obtain ls rs where sel: "select_outer_bin_edges ?r range_opt = Inr (ls, rs)"
    and lin: "linspace_edges ls rs bin_ct (replicate ?N (empty0 self)) = Inr bins"
    using sl by (auto simp: histogramdd_bin_edges_out_cpu_def Let_def split: sum.splits)
  have "sizes ?r = [prod_list (butlast (sizes self)), ?N]" by (simp add: reshape_def)
  note s = select_outer_bin_edges_success [OF this sel]
  have l1: "length ls = length (replicate ?N (empty0 self))" using s(1) by simp
  have l2: "length rs = length (replicate ?N (empty0 self))" using s(2) by simp
  have sub: "set (replicate ?N (empty0 self)) \<subseteq> {empty0 self}" by auto
  note le = linspace_edges_success [OF l1 l2 sub lin]
  show "\<exists>ls rs. select_outer_bin_edges ?r range_opt = Inr (ls, rs) \<and>
           (\<forall>d < ?N. bin_ct ! d + 1 \<ge> 0 \<and>
              bins ! d = \<lparr>dtype = dtype self, sizes = [nat (bin_ct ! d + 1)],
                           data = linspace_values (ls ! d) (rs ! d) (nat (bin_ct ! d + 1))\<rparr>)"
    using sel le by auto
  show "length bins = ?N" using le by simp
  show "?N \<le> length bin_ct" using le by simp
qed




section \<open>Properties of the outer bin edges of histc\<close>






section \<open>The edges that reach the kernel\<close>

text \<open>After the edges are generated, the overload with bin counts goes on as the overload with explicit edges does.\<close>

lemma histogramdd_out_cpu_bin_ct_via_edges:
  "histogramdd_out_cpu_bin_ct lstub self bin_ct range_opt weight density out =
     (case histogramdd_bin_edges_cpu self bin_ct range_opt of
        Inl e \<Rightarrow> (Inl e, out)
      | Inr bins \<Rightarrow>
          histogramdd_out_cpu (\<lambda>s w d h e. lstub s w d h e True) self bins weight density out)"
  by (simp add: histogramdd_out_cpu_bin_ct_def histogramdd_out_cpu_def split: sum.splits)

lemma histogramdd_out_cpu_bin_ct_success:
  assumes "histogramdd_out_cpu_bin_ct lstub self bin_ct range_opt weight density out = (Inr (), out')"
  shows "\<exists>bins. histogramdd_bin_edges_cpu self bin_ct range_opt = Inr bins \<and>
           histogramdd_out_cpu (\<lambda>s w d h e. lstub s w d h e True) self bins weight density out = (Inr (), out')"
  using assms unfolding histogramdd_out_cpu_bin_ct_via_edges
  by (auto split: sum.splits)

lemma histogram_out_cpu_success:
  assumes "histogram_out_cpu stub self bins weight density hist_t bin_edges_t = (Inr (), hist', edges')"
  shows "\<exists>out'. histogramdd_out_cpu stub (reshape self [numel self, 1]) [bins]
                  (map_option (\<lambda>w. reshape w [numel w]) weight) density
                  \<lparr>hist = hist_t, bin_edges = [bin_edges_t]\<rparr> = (Inr (), out') \<and>
               hist' = hist out' \<and> [edges'] = bin_edges out'"
proof -
  obtain r out' where o: "histogramdd_out_cpu stub (reshape self [numel self, 1]) [bins]
                  (map_option (\<lambda>w. reshape w [numel w]) weight) density
                  \<lparr>hist = hist_t, bin_edges = [bin_edges_t]\<rparr> = (r, out')"
    by (cases "histogramdd_out_cpu stub (reshape self [numel self, 1]) [bins]
                  (map_option (\<lambda>w. reshape w [numel w]) weight) density
                  \<lparr>hist = hist_t, bin_edges = [bin_edges_t]\<rparr>")
  with assms have r: "r = Inr ()" and h: "hist' = hist out'" and e: "edges' = bin_edges out' ! 0"
    by (simp_all add: histogram_out_cpu_def Let_def)
  from histogramdd_out_cpu_success(2) [OF o [unfolded r]] have "bin_edges out' = [bins]" .
  with e have "[edges'] = bin_edges out'" by simp
  with o r h show ?thesis by blast
qed

lemma histogram_out_cpu_bin_ct_success:
  assumes "histogram_out_cpu_bin_ct lstub self bin_ct range_opt weight density hist_t bin_edges_t
             = (Inr (), hist', edges')"
  shows "\<exists>out1 first second.
           histogramdd_prepare_out (reshape self [numel self, 1]) [bin_ct]
              \<lparr>hist = hist_t, bin_edges = [bin_edges_t]\<rparr> = (Inr (), out1) \<and>
           select_outer_bin_edges (reshape self [numel self, 1]) range_opt = Inr (first, second) \<and>
           linspace_cpu_out (first ! 0) (second ! 0) (bin_ct + 1) (bin_edges out1 ! 0) = Inr edges' \<and>
           histogramdd_check_inputs (reshape self [numel self, 1]) [edges']
              (map_option (\<lambda>w. reshape w [numel w]) weight) = Inr () \<and>
           hist' = (hist out1)\<lparr>data := lstub (reshape self [numel self, 1])
                      (map_option (\<lambda>w. reshape w [numel w]) weight) density (hist out1) [edges'] True\<rparr>"
  using assms
  by (auto simp: histogram_out_cpu_bin_ct_def Let_def split: prod.splits sum.splits)

text \<open>
  Claim C7. In every successful call, with explicit edges or with bin counts, the
  list of edge tensors handed to the kernel is the list the caller gets back in
  \<open>bin_edges\<close>: the histogram is what the kernel computes from the returned edges.
  With explicit edges the returned edges are the caller's edge tensors, copied into the
  output buffers before the kernel runs; with bin counts they are the edges that
  \<open>histogramdd_bin_edges_cpu\<close> generates. The kernels are arbitrary here.
\<close>

theorem binning_edges_are_returned_edges:
  "(histogramdd_out_cpu stub self bins weight density out = (Inr (), out') \<longrightarrow>
      bin_edges out' = bins \<and>
      (\<exists>h. hist out' = h\<lparr>data := stub self weight density h (bin_edges out')\<rparr>))
   \<and> (histogramdd_out_cpu_bin_ct lstub self bin_ct range_opt weight density out = (Inr (), out') \<longrightarrow>
      histogramdd_bin_edges_cpu self bin_ct range_opt = Inr (bin_edges out') \<and>
      (\<exists>h. hist out' = h\<lparr>data := lstub self weight density h (bin_edges out') True\<rparr>))
   \<and> (histogram_out_cpu stub self1 bins1 weight density hist_t bin_edges_t = (Inr (), hist', edges') \<longrightarrow>
      edges' = bins1 \<and>
      (\<exists>h. hist' = h\<lparr>data := stub (reshape self1 [numel self1, 1])
                        (map_option (\<lambda>w. reshape w [numel w]) weight) density h [edges']\<rparr>))
   \<and> (histogram_out_cpu_bin_ct lstub self1 k range_opt weight density hist_t bin_edges_t = (Inr (), hist', edges') \<longrightarrow>
      (\<exists>h. hist' = h\<lparr>data := lstub (reshape self1 [numel self1, 1])
                        (map_option (\<lambda>w. reshape w [numel w]) weight) density h [edges'] True\<rparr>))"
proof (intro conjI impI)
  assume a: "histogramdd_out_cpu stub self bins weight density out = (Inr (), out')"
  note s = histogramdd_out_cpu_success [OF a]
  show "bin_edges out' = bins" by (rule s(2))
  show "\<exists>h. hist out' = h\<lparr>data := stub self weight density h (bin_edges out')\<rparr>"
    using s(2,3) by auto
next
  assume a: "histogramdd_out_cpu_bin_ct lstub self bin_ct range_opt weight density out = (Inr (), out')"
  from histogramdd_out_cpu_bin_ct_success [OF a] obtain bs where
    b: "histogramdd_bin_edges_cpu self bin_ct range_opt = Inr bs"
    and o: "histogramdd_out_cpu (\<lambda>s w d h e. lstub s w d h e True) self bs weight density out = (Inr (), out')"
    by blast
  note s = histogramdd_out_cpu_success [OF o]
  show "histogramdd_bin_edges_cpu self bin_ct range_opt = Inr (bin_edges out')"
    using b s(2) by simp
  show "\<exists>h. hist out' = h\<lparr>data := lstub self weight density h (bin_edges out') True\<rparr>"
    using s(2,3) by auto
next
  assume a: "histogram_out_cpu stub self1 bins1 weight density hist_t bin_edges_t = (Inr (), hist', edges')"
  from histogram_out_cpu_success [OF a] obtain od where
    o: "histogramdd_out_cpu stub (reshape self1 [numel self1, 1]) [bins1]
                  (map_option (\<lambda>w. reshape w [numel w]) weight) density
                  \<lparr>hist = hist_t, bin_edges = [bin_edges_t]\<rparr> = (Inr (), od)"
    and h: "hist' = hist od" and e: "[edges'] = bin_edges od" by blast
  note s = histogramdd_out_cpu_success [OF o]
  show "edges' = bins1" using s(2) e by simp
  show "\<exists>h. hist' = h\<lparr>data := stub (reshape self1 [numel self1, 1])
                        (map_option (\<lambda>w. reshape w [numel w]) weight) density h [edges']\<rparr>"
    using s(2,3) h e by auto
next
  assume a: "histogram_out_cpu_bin_ct lstub self1 k range_opt weight density hist_t bin_edges_t = (Inr (), hist', edges')"
  from histogram_out_cpu_bin_ct_success [OF a]
  show "\<exists>h. hist' = h\<lparr>data := lstub (reshape self1 [numel self1, 1])
                        (map_option (\<lambda>w. reshape w [numel w]) weight) density h [edges'] True\<rparr>"
    by blast
qed

theorem binning_edges_are_returned_edges_witness:
  "(\<exists>out'. histogramdd_out_cpu histogramdd_kernel
        \<lparr>dtype = kDouble, sizes = [3, 1], data = [Finite 0, Finite 0, Finite 1]\<rparr>
        [\<lparr>dtype = kDouble, sizes = [3], data = [Finite 0, Finite (1/2), Finite 1]\<rparr>]
        (Some \<lparr>dtype = kDouble, sizes = [3], data = [Finite 2, Finite 3, Finite 5]\<rparr>) False
        \<lparr>hist = \<lparr>dtype = kDouble, sizes = [0], data = []\<rparr>,
         bin_edges = [\<lparr>dtype = kDouble, sizes = [0], data = []\<rparr>]\<rparr> = (Inr (), out')
      \<and> bin_edges out' = [\<lparr>dtype = kDouble, sizes = [3], data = [Finite 0, Finite (1/2), Finite 1]\<rparr>]
      \<and> data (hist out') = [Finite 5, Finite 5])
   \<and> (\<exists>out'. histogramdd_out_cpu_bin_ct histogramdd_linear_kernel
        \<lparr>dtype = kDouble, sizes = [3, 1], data = [Finite 0, Finite 0, Finite 1]\<rparr>
        [2] (Some [Finite 0, Finite 1])
        (Some \<lparr>dtype = kDouble, sizes = [3], data = [Finite 2, Finite 3, Finite 5]\<rparr>) False
        \<lparr>hist = \<lparr>dtype = kDouble, sizes = [0], data = []\<rparr>,
         bin_edges = [\<lparr>dtype = kDouble, sizes = [0], data = []\<rparr>]\<rparr> = (Inr (), out')
      \<and> histogramdd_bin_edges_cpu \<lparr>dtype = kDouble, sizes = [3, 1], data = [Finite 0, Finite 0, Finite 1]\<rparr>
        [2] (Some [Finite 0, Finite 1]) = Inr (bin_edges out'))
   \<and> (\<exists>h' e'. histogram_out_cpu histogramdd_kernel
        \<lparr>dtype = kDouble, sizes = [3], data = [Finite 0, Finite 0, Finite 1]\<rparr>
        \<lparr>dtype = kDouble, sizes = [3], data = [Finite 0, Finite (1/2), Finite 1]\<rparr>
        None False
        \<lparr>dtype = kDouble, sizes = [0], data = []\<rparr> \<lparr>dtype = kDouble, sizes = [0], data = []\<rparr> = (Inr (), h', e')
      \<and> e' = \<lparr>dtype = kDouble, sizes = [3], data = [Finite 0, Finite (1/2), Finite 1]\<rparr>)
   \<and> (\<exists>h' e'. histogram_out_cpu_bin_ct histogramdd_linear_kernel
        \<lparr>dtype = kDouble, sizes = [3], data = [Finite 0, Finite 0, Finite 1]\<rparr>
        2 None None False
        \<lparr>dtype = kDouble, sizes = [0], data = []\<rparr> \<lparr>dtype = kDouble, sizes = [0], data = []\<rparr> = (Inr (), h', e')
      \<and> (\<exists>h. h' = h\<lparr>data := histogramdd_linear_kernel
                   (reshape \<lparr>dtype = kDouble, sizes = [3], data = [Finite 0, Finite 0, Finite 1]\<rparr> [3, 1])
                   None False h [e'] True\<rparr>))"
proof -
  let ?K = "histogramdd_kernel"
  let ?L = "histogramdd_linear_kernel"
  let ?T = "\<lparr>dtype = kDouble, sizes = [3, 1], data = [Finite 0, Finite 0, Finite 1]\<rparr>"
  let ?T1 = "\<lparr>dtype = kDouble, sizes = [3], data = [Finite 0, Finite 0, Finite 1]\<rparr>"
  let ?B = "\<lparr>dtype = kDouble, sizes = [3], data = [Finite 0, Finite (1/2), Finite 1]\<rparr>"
  let ?W = "Some \<lparr>dtype = kDouble, sizes = [3], data = [Finite 2, Finite 3, Finite 5]\<rparr>"
  let ?E = "\<lparr>dtype = kDouble, sizes = [0], data = []\<rparr>"
  let ?H = "\<lparr>dtype = kDouble, sizes = [2], data = [Finite 5, Finite 5]\<rparr>"
  let ?H1 = "\<lparr>dtype = kDouble, sizes = [2], data = [Finite 2, Finite 1]\<rparr>"
  have c1: "histogramdd_out_cpu ?K ?T [?B] ?W False \<lparr>hist = ?E, bin_edges = [?E]\<rparr>
              = (Inr (), \<lparr>hist = ?H, bin_edges = [?B]\<rparr>)" by code_simp
  have c2: "histogramdd_out_cpu_bin_ct ?L ?T [2] (Some [Finite 0, Finite 1]) ?W False \<lparr>hist = ?E, bin_edges = [?E]\<rparr>
              = (Inr (), \<lparr>hist = ?H, bin_edges = [?B]\<rparr>)" by code_simp
  have c3: "histogram_out_cpu ?K ?T1 ?B None False ?E ?E = (Inr (), ?H1, ?B)" by code_simp
  have c4: "histogram_out_cpu_bin_ct ?L ?T1 2 None None False ?E ?E = (Inr (), ?H1, ?B)" by code_simp
  note t = binning_edges_are_returned_edges [of ?K ?T "[?B]" ?W False "\<lparr>hist = ?E, bin_edges = [?E]\<rparr>"
      "\<lparr>hist = ?H, bin_edges = [?B]\<rparr>" ?L "[2]" "Some [Finite 0, Finite 1]" ?T1 ?B ?E ?E ?H1 ?B 2]
  note u = binning_edges_are_returned_edges [of ?K ?T "[?B]" None False "\<lparr>hist = ?E, bin_edges = [?E]\<rparr>"
      "\<lparr>hist = ?H, bin_edges = [?B]\<rparr>" ?L "[2]" None ?T1 ?B ?E ?E ?H1 ?B 2]
  from t [THEN conjunct1, rule_format, OF c1]
  have 1: "bin_edges \<lparr>hist = ?H, bin_edges = [?B]\<rparr> = [?B]" by blast
  from t [THEN conjunct2, THEN conjunct1, rule_format, OF c2]
  have 2: "histogramdd_bin_edges_cpu ?T [2] (Some [Finite 0, Finite 1])
             = Inr (bin_edges \<lparr>hist = ?H, bin_edges = [?B]\<rparr>)" by blast
  from u [THEN conjunct2, THEN conjunct2, THEN conjunct1, rule_format, OF c3]
  have 3: "?B = ?B" by blast
  from u [THEN conjunct2, THEN conjunct2, THEN conjunct2, rule_format, OF c4]
  have 4: "\<exists>h. ?H1 = h\<lparr>data := histogramdd_linear_kernel (reshape ?T1 [3, 1]) None False h [?B] True\<rparr>"
    by (simp add: numel_def)
  have d1: "data (hist \<lparr>hist = ?H, bin_edges = [?B]\<rparr>) = [Finite 5, Finite 5]" by simp
  show ?thesis
    apply (intro conjI)
       apply (rule exI [of _ "\<lparr>hist = ?H, bin_edges = [?B]\<rparr>"])
       apply (intro conjI c1 1 d1)
      apply (rule exI [of _ "\<lparr>hist = ?H, bin_edges = [?B]\<rparr>"])
      apply (intro conjI c2 2)
     apply (rule exI [of _ ?H1], rule exI [of _ ?B])
     apply (intro conjI c3 refl)
    apply (rule exI [of _ ?H1], rule exI [of _ ?B])
    apply (intro conjI c4 4)
    done
qed

section \<open>Edge tensors with a single element\<close>

lemma prepare_edges_first_nonpositive:
  "length ks = length es \<Longrightarrow> \<forall>e \<in> set es. dtype e = t \<Longrightarrow> i < length ks \<Longrightarrow>
   ks ! i \<le> 0 \<Longrightarrow> \<forall>j < i. ks ! j > 0 \<Longrightarrow>
   fst (prepare_edges t d ks es) = Inl (BinsNotPositive (ks ! i) (d + i))"
proof (induction ks es arbitrary: d i rule: list_induct2)
  case Nil
  then show ?case by simp
next
  case (Cons k ks e es)
  show ?case
  proof (cases i)
    case 0
    with Cons.prems show ?thesis by simp
  next
    case (Suc i')
    with Cons.prems have k: "k > 0" by auto
    have "fst (prepare_edges t (Suc d) ks es) = Inl (BinsNotPositive (ks ! i') (Suc d + i'))"
      using Cons.prems Suc by (intro Cons.IH) auto
    then show ?thesis using Cons.prems k Suc by (simp add: case_prod_unfold)
  qed
qed

lemma fails_or_succeeds:
  "(\<exists>e out'. f = (Inl e, out')) \<or> (\<exists>out'. f = (Inr (), out'))"
  for f :: "(error + unit) \<times> 'a"
  by (cases f; cases "fst f") auto

text \<open>
  Claim C10. A call with explicit edges in which the edge tensor of some dimension
  has exactly one element fails. Input validation accepts such a tensor, since it
  asks for at least one element. The bin count derived from it is \<open>numel - 1 = 0\<close>,
  and when no other check fails first, output preparation rejects the call with the
  error "bins must be > 0" for the first such dimension. So every successful call
  with explicit edges has at least two edges in every dimension.
\<close>

theorem one_element_edges_rejected:
  "((\<exists>b \<in> set bins. numel b = 1) \<longrightarrow>
       (\<exists>e out'. histogramdd_out_cpu stub self bins weight density out = (Inl e, out')))
   \<and> (inputs_valid self bins weight \<longrightarrow> histogramdd_check_inputs self bins weight = Inr ())
   \<and> (inputs_valid self bins weight \<and> dtype (hist out) = dtype self \<and>
        length (bin_edges out) = length bins \<and> (\<forall>e \<in> set (bin_edges out). dtype e = dtype self) \<and>
        d < length bins \<and> numel (bins ! d) = 1 \<and> (\<forall>j < d. numel (bins ! j) \<noteq> 1) \<longrightarrow>
        (\<exists>out'. histogramdd_prepare_out_bins self bins out = (Inl (BinsNotPositive 0 d), out') \<and>
                histogramdd_out_cpu stub self bins weight density out = (Inl (BinsNotPositive 0 d), out')))
   \<and> (\<forall>out'. histogramdd_out_cpu stub self bins weight density out = (Inr (), out') \<longrightarrow>
        (\<forall>b \<in> set bins. numel b \<ge> 2))
   \<and> (numel bins1 = 1 \<longrightarrow>
        (\<exists>e h' e'. histogram_out_cpu stub self1 bins1 weight density hist_t bin_edges_t = (Inl e, h', e')))"
proof (intro conjI impI allI)
  assume "\<exists>b \<in> set bins. numel b = 1"
  then have "\<not> (\<exists>out'. histogramdd_out_cpu stub self bins weight density out = (Inr (), out'))"
    using histogramdd_out_cpu_success(4) by fastforce
  then show "\<exists>e out'. histogramdd_out_cpu stub self bins weight density out = (Inl e, out')"
    using fails_or_succeeds [of "histogramdd_out_cpu stub self bins weight density out"] by blast
next
  assume "inputs_valid self bins weight"
  then show "histogramdd_check_inputs self bins weight = Inr ()" by (simp add: check_inputs_ok)
next
  assume a: "inputs_valid self bins weight \<and> dtype (hist out) = dtype self \<and>
        length (bin_edges out) = length bins \<and> (\<forall>e \<in> set (bin_edges out). dtype e = dtype self) \<and>
        d < length bins \<and> numel (bins ! d) = 1 \<and> (\<forall>j < d. numel (bins ! j) \<noteq> 1)"
  let ?ks = "map (\<lambda>t. int (numel t) - 1) bins"
  from a have chk: "histogramdd_check_inputs self bins weight = Inr ()" by (simp add: check_inputs_ok)
  from a have ge1: "\<forall>b \<in> set bins. numel b \<ge> 1" and N: "length bins = last (sizes self)"
    and d2: "dim_t self \<ge> 2" by (auto simp: inputs_valid_def)
  have sl: "size_last self = Inr (length bins)"
    using d2 N by (auto simp: size_last_def dim_t_def split: list.splits)
  have len: "length ?ks = length (bin_edges out)" using a by simp
  have kd: "?ks ! d \<le> 0" using a by simp
  have before: "\<forall>j < d. ?ks ! j > 0"
  proof (intro allI impI)
    fix j assume j: "j < d"
    then have "bins ! j \<in> set bins" using a by simp
    then have "numel (bins ! j) \<ge> 1" using ge1 by blast
    moreover have "numel (bins ! j) \<noteq> 1" using a j by blast
    ultimately have "numel (bins ! j) \<ge> 2" by linarith
    moreover have "j < length bins" using j a by simp
    ultimately show "?ks ! j > 0" by simp
  qed
  have dlen: "d < length ?ks" using a by simp
  have dts: "\<forall>e \<in> set (bin_edges out). dtype e = dtype self" using a by blast
  from prepare_edges_first_nonpositive [OF len dts dlen kd before, of 0]
  have fst_pe: "fst (prepare_edges (dtype self) 0 ?ks (bin_edges out)) = Inl (BinsNotPositive 0 d)"
    using a by simp
  obtain es' where pe: "prepare_edges (dtype self) 0 ?ks (bin_edges out) = (Inl (BinsNotPositive 0 d), es')"
    using fst_pe by (cases "prepare_edges (dtype self) 0 ?ks (bin_edges out)") auto
  have prep: "histogramdd_prepare_out_bins self bins out = (Inl (BinsNotPositive 0 d), out\<lparr>bin_edges := es'\<rparr>)"
    using sl a pe by (simp add: histogramdd_prepare_out_bins_def histogramdd_prepare_out_def)
  have "histogramdd_out_cpu stub self bins weight density out = (Inl (BinsNotPositive 0 d), out\<lparr>bin_edges := es'\<rparr>)"
    using chk prep by (simp add: histogramdd_out_cpu_def)
  with prep show "\<exists>out'. histogramdd_prepare_out_bins self bins out = (Inl (BinsNotPositive 0 d), out') \<and>
                histogramdd_out_cpu stub self bins weight density out = (Inl (BinsNotPositive 0 d), out')"
    by blast
next
  fix out' assume "histogramdd_out_cpu stub self bins weight density out = (Inr (), out')"
  then show "\<forall>b \<in> set bins. numel b \<ge> 2" by (rule histogramdd_out_cpu_success(4))
next
  assume n1: "numel bins1 = 1"
  obtain r h' e' where c: "histogram_out_cpu stub self1 bins1 weight density hist_t bin_edges_t = (r, h', e')"
    by (cases "histogram_out_cpu stub self1 bins1 weight density hist_t bin_edges_t") auto
  have "r \<noteq> Inr ()"
  proof
    assume "r = Inr ()"
    with c histogram_out_cpu_success obtain od where
      "histogramdd_out_cpu stub (reshape self1 [numel self1, 1]) [bins1]
                  (map_option (\<lambda>w. reshape w [numel w]) weight) density
                  \<lparr>hist = hist_t, bin_edges = [bin_edges_t]\<rparr> = (Inr (), od)" by blast
    from histogramdd_out_cpu_success(4) [OF this] n1 show False by simp
  qed
  then obtain e where "r = Inl e" by (cases r) auto
  with c show "\<exists>e h' e'. histogram_out_cpu stub self1 bins1 weight density hist_t bin_edges_t = (Inl e, h', e')"
    by blast
qed

theorem one_element_edges_rejected_witness:
  "histogramdd_check_inputs \<lparr>dtype = kDouble, sizes = [2, 1], data = [Finite 0, Finite 1]\<rparr>
      [\<lparr>dtype = kDouble, sizes = [1], data = [Finite 0]\<rparr>] None = Inr ()
   \<and> (\<exists>out'. histogramdd_out_cpu histogramdd_kernel
         \<lparr>dtype = kDouble, sizes = [2, 1], data = [Finite 0, Finite 1]\<rparr>
         [\<lparr>dtype = kDouble, sizes = [1], data = [Finite 0]\<rparr>] None False
         \<lparr>hist = \<lparr>dtype = kDouble, sizes = [0], data = []\<rparr>,
          bin_edges = [\<lparr>dtype = kDouble, sizes = [0], data = []\<rparr>]\<rparr>
       = (Inl (BinsNotPositive 0 0), out'))"
proof -
  let ?K = "histogramdd_kernel"
  let ?T = "\<lparr>dtype = kDouble, sizes = [2, 1], data = [Finite 0, Finite 1]\<rparr>"
  let ?B = "\<lparr>dtype = kDouble, sizes = [1], data = [Finite 0]\<rparr>"
  let ?E = "\<lparr>dtype = kDouble, sizes = [0], data = []\<rparr>"
  let ?O = "\<lparr>hist = ?E, bin_edges = [?E]\<rparr>"
  note t = one_element_edges_rejected [of "[?B]" ?K ?T None False ?O 0]
  have v: "inputs_valid ?T [?B] None" by (simp add: inputs_valid_def dim_t_def numel_def)
  have h: "inputs_valid ?T [?B] None \<and> dtype (hist ?O) = dtype ?T \<and>
        length (bin_edges ?O) = length [?B] \<and> (\<forall>e \<in> set (bin_edges ?O). dtype e = dtype ?T) \<and>
        0 < length [?B] \<and> numel ([?B] ! 0) = 1 \<and> (\<forall>j < (0::nat). numel ([?B] ! j) \<noteq> 1)"
    using v by (simp add: numel_def)
  from t [THEN conjunct2, THEN conjunct1, rule_format, OF v]
  have 1: "histogramdd_check_inputs ?T [?B] None = Inr ()" .
  from t [THEN conjunct2, THEN conjunct2, THEN conjunct1, rule_format, OF h]
  have 2: "\<exists>out'. histogramdd_out_cpu ?K ?T [?B] None False ?O = (Inl (BinsNotPositive 0 0), out')"
    by blast
  from 1 2 show ?thesis by (rule conjI)
qed

section \<open>Shapes of the outputs\<close>

lemma linspace_cpu_out_sizes:
  "linspace_cpu_out l r steps t = Inr t' \<Longrightarrow> sizes t = [nat steps] \<Longrightarrow>
   sizes t' = [nat steps] \<and> dtype t' = dtype t \<and> data t' = linspace_values l r (nat steps)"
  by (auto simp: linspace_cpu_out_def Let_def split: if_splits)

lemma histogram_histc_cpu_out_success:
  assumes "histogram_histc_cpu_out lstub self bin_ct min_v max_v hist_t = (Inr (), hist')"
  shows "\<exists>out1 first second edges.
           histogramdd_prepare_out (reshape self [numel self, 1]) [bin_ct]
              \<lparr>hist = hist_t, bin_edges = [empty0 self]\<rparr> = (Inr (), out1) \<and>
           histc_select_outer_bin_edges self min_v max_v = Inr (first, second) \<and>
           linspace_cpu_out first second (bin_ct + 1) (bin_edges out1 ! 0) = Inr edges \<and>
           histogramdd_check_inputs (reshape self [numel self, 1]) [edges] None = Inr () \<and>
           hist' = (hist out1)\<lparr>data := lstub (reshape self [numel self, 1]) None False (hist out1) [edges] False\<rparr>"
  using assms
  by (auto simp: histogram_histc_cpu_out_def Let_def split: prod.splits sum.splits)

lemma histogramdd_out_cpu_shapes:
  assumes "histogramdd_out_cpu stub self bins weight density out = (Inr (), out')"
  shows "sizes (hist out') = map (\<lambda>b. numel b - 1) bins"
    and "map sizes (bin_edges out') = map (\<lambda>b. [(numel b - 1) + 1]) bins"
proof -
  note s = histogramdd_out_cpu_success [OF assms]
  show "sizes (hist out') = map (\<lambda>b. numel b - 1) bins" using s(3) by simp
  have "\<forall>b \<in> set bins. sizes b = [(numel b - 1) + 1]"
  proof
    fix b assume b: "b \<in> set bins"
    then have "dim_t b = 1" using s(1) by (auto simp: inputs_valid_def)
    then have "sizes b = [numel b]" by (rule one_dim_sizes)
    moreover have "numel b \<ge> 2" using s(4) b by blast
    ultimately show "sizes b = [(numel b - 1) + 1]" by simp
  qed
  then show "map sizes (bin_edges out') = map (\<lambda>b. [(numel b - 1) + 1]) bins"
    using s(2) by simp
qed

lemma histogramdd_out_cpu_bin_ct_shapes:
  assumes "histogramdd_out_cpu_bin_ct lstub self bin_ct range_opt weight density out = (Inr (), out')"
  shows "sizes (hist out') = map nat (take (last (sizes self)) bin_ct)"
    and "map sizes (bin_edges out') = map (\<lambda>k. [nat k + 1]) (take (last (sizes self)) bin_ct)"
    and "\<forall>k \<in> set (take (last (sizes self)) bin_ct). k > 0"
    and "last (sizes self) \<le> length bin_ct"
proof -
  let ?N = "last (sizes self)"
  from histogramdd_out_cpu_bin_ct_success [OF assms] obtain bins where
    b: "histogramdd_bin_edges_cpu self bin_ct range_opt = Inr bins"
    and o: "histogramdd_out_cpu (\<lambda>s w d h e. lstub s w d h e True) self bins weight density out = (Inr (), out')"
    by blast
  note e = histogramdd_bin_edges_cpu_success [OF b]
  note s = histogramdd_out_cpu_success [OF o]
  note sh = histogramdd_out_cpu_shapes [OF o]
  show le: "?N \<le> length bin_ct" by (rule e(4))
  have nm: "\<forall>d < ?N. numel (bins ! d) = nat (bin_ct ! d + 1) \<and> bin_ct ! d + 1 \<ge> 0"
    using e(2) by (auto simp: numel_def)
  have pos: "\<forall>d < ?N. bin_ct ! d > 0"
  proof (intro allI impI)
    fix d assume d: "d < ?N"
    then have "bins ! d \<in> set bins" using e(3) by simp
    then have "numel (bins ! d) \<ge> 2" using s(4) by blast
    then show "bin_ct ! d > 0" using nm d by auto
  qed
  show "\<forall>k \<in> set (take ?N bin_ct). k > 0"
    using pos le by (auto simp: in_set_conv_nth)
  show "sizes (hist out') = map nat (take ?N bin_ct)"
    unfolding sh(1) using e(3) le nm pos by (auto simp: list_eq_iff_nth_eq)
  show "map sizes (bin_edges out') = map (\<lambda>k. [nat k + 1]) (take ?N bin_ct)"
    unfolding sh(2) using e(3) le nm pos by (auto simp: list_eq_iff_nth_eq nat_add_distrib)
qed

lemma histogram_out_cpu_bin_ct_shapes:
  assumes "histogram_out_cpu_bin_ct lstub self bin_ct range_opt weight density hist_t bin_edges_t
             = (Inr (), hist', edges')"
  shows "sizes hist' = [nat bin_ct]" and "sizes edges' = [nat bin_ct + 1]" and "bin_ct > 0"
proof -
  from histogram_out_cpu_bin_ct_success [OF assms] obtain out1 first second where
    p: "histogramdd_prepare_out (reshape self [numel self, 1]) [bin_ct]
              \<lparr>hist = hist_t, bin_edges = [bin_edges_t]\<rparr> = (Inr (), out1)"
    and l: "linspace_cpu_out (first ! 0) (second ! 0) (bin_ct + 1) (bin_edges out1 ! 0) = Inr edges'"
    and h: "hist' = (hist out1)\<lparr>data := lstub (reshape self [numel self, 1])
                      (map_option (\<lambda>w. reshape w [numel w]) weight) density (hist out1) [edges'] True\<rparr>"
    by blast
  note s = prepare_out_success [OF p]
  show k: "bin_ct > 0" using s(3) by simp
  show "sizes hist' = [nat bin_ct]" using h s(1) by simp
  have "sizes (bin_edges out1 ! 0) = [nat (bin_ct + 1)]" using s(7) by simp
  from linspace_cpu_out_sizes [OF l this] show "sizes edges' = [nat bin_ct + 1]"
    using k by (simp add: nat_add_distrib)
qed

lemma histogram_histc_cpu_out_shapes:
  assumes "histogram_histc_cpu_out lstub self bin_ct min_v max_v hist_t = (Inr (), hist')"
  shows "sizes hist' = [nat bin_ct]" and "bin_ct > 0"
proof -
  from histogram_histc_cpu_out_success [OF assms] obtain out1 edges where
    p: "histogramdd_prepare_out (reshape self [numel self, 1]) [bin_ct]
              \<lparr>hist = hist_t, bin_edges = [empty0 self]\<rparr> = (Inr (), out1)"
    and h: "hist' = (hist out1)\<lparr>data := lstub (reshape self [numel self, 1]) None False (hist out1) [edges] False\<rparr>"
    by blast
  note s = prepare_out_success [OF p]
  show "bin_ct > 0" using s(3) by simp
  show "sizes hist' = [nat bin_ct]" using h s(1) by simp
qed

lemma histogram_out_cpu_shapes:
  assumes "histogram_out_cpu stub self bins weight density hist_t bin_edges_t = (Inr (), hist', edges')"
  shows "sizes hist' = [numel bins - 1]" and "sizes edges' = [(numel bins - 1) + 1]"
proof -
  from histogram_out_cpu_success [OF assms] obtain od where
    o: "histogramdd_out_cpu stub (reshape self [numel self, 1]) [bins]
                  (map_option (\<lambda>w. reshape w [numel w]) weight) density
                  \<lparr>hist = hist_t, bin_edges = [bin_edges_t]\<rparr> = (Inr (), od)"
    and h: "hist' = hist od" and e: "[edges'] = bin_edges od" by blast
  note sh = histogramdd_out_cpu_shapes [OF o]
  show "sizes hist' = [numel bins - 1]" using sh(1) h by simp
  show "sizes edges' = [(numel bins - 1) + 1]" using sh(2) e [symmetric] by simp
qed

text \<open>
  Claim C2. Every call that returns successfully leaves a histogram of shape
  \<open>(k_0, ..., k_{N-1})\<close> and edge tensors of lengths \<open>k_d + 1\<close>, all \<open>k_d\<close> positive,
  where the \<open>k_d\<close> are the bin counts given (the first \<open>N\<close> of them) or, with explicit
  edges, the number of elements of the edge tensor of dimension \<open>d\<close> minus one. This
  holds for \<open>histogramdd_prepare_out\<close> and for each of the five entry points, whatever
  the kernels are. When its two assertions hold, \<open>histogramdd_prepare_out\<close> fails
  with an \<open>InvalidArgument\<close> error exactly when some bin count is not positive or the
  element type of the histogram buffer or of an edge buffer differs from that of the
  input.
\<close>

theorem output_shapes:
  "(histogramdd_prepare_out input ks out = (Inr (), out1) \<longrightarrow>
      sizes (hist out1) = map nat ks \<and>
      map sizes (bin_edges out1) = map (\<lambda>k. [nat k + 1]) ks \<and> (\<forall>k \<in> set ks. k > 0))
   \<and> (sizes input \<noteq> [] \<and> length ks = last (sizes input) \<and> length (bin_edges out) = last (sizes input) \<longrightarrow>
      (\<exists>e out1. histogramdd_prepare_out input ks out = (Inl e, out1) \<and> invalid_argument e)
        = ((\<exists>k \<in> set ks. k \<le> 0) \<or> dtype (hist out) \<noteq> dtype input
            \<or> (\<exists>e \<in> set (bin_edges out). dtype e \<noteq> dtype input)))
   \<and> (histogramdd_out_cpu stub self bins weight density out = (Inr (), out') \<longrightarrow>
      sizes (hist out') = map (\<lambda>b. numel b - 1) bins \<and>
      map sizes (bin_edges out') = map (\<lambda>b. [(numel b - 1) + 1]) bins)
   \<and> (histogramdd_out_cpu_bin_ct lstub self bin_ct range_opt weight density out = (Inr (), out') \<longrightarrow>
      last (sizes self) \<le> length bin_ct \<and>
      sizes (hist out') = map nat (take (last (sizes self)) bin_ct) \<and>
      map sizes (bin_edges out') = map (\<lambda>k. [nat k + 1]) (take (last (sizes self)) bin_ct) \<and>
      (\<forall>k \<in> set (take (last (sizes self)) bin_ct). k > 0))
   \<and> (histogram_out_cpu stub self1 bins1 weight density hist_t bin_edges_t = (Inr (), hist', edges') \<longrightarrow>
      sizes hist' = [numel bins1 - 1] \<and> sizes edges' = [(numel bins1 - 1) + 1])
   \<and> (histogram_out_cpu_bin_ct lstub self1 k1 range_opt weight density hist_t bin_edges_t = (Inr (), hist', edges') \<longrightarrow>
      sizes hist' = [nat k1] \<and> sizes edges' = [nat k1 + 1] \<and> k1 > 0)
   \<and> (histogram_histc_cpu_out lstub self1 k1 min_v max_v hist_t = (Inr (), hist') \<longrightarrow>
      sizes hist' = [nat k1] \<and> k1 > 0)"
proof (intro conjI impI)
  assume a: "histogramdd_prepare_out input ks out = (Inr (), out1)"
  note s = prepare_out_success [OF a]
  show "sizes (hist out1) = map nat ks" by (rule s(1))
  show "\<forall>k \<in> set ks. k > 0" by (rule s(3))
  then show "map sizes (bin_edges out1) = map (\<lambda>k. [nat k + 1]) ks"
    unfolding s(2) by (auto simp: nat_add_distrib)
next
  assume "sizes input \<noteq> [] \<and> length ks = last (sizes input) \<and> length (bin_edges out) = last (sizes input)"
  then show "(\<exists>e out1. histogramdd_prepare_out input ks out = (Inl e, out1) \<and> invalid_argument e)
        = ((\<exists>k \<in> set ks. k \<le> 0) \<or> dtype (hist out) \<noteq> dtype input
            \<or> (\<exists>e \<in> set (bin_edges out). dtype e \<noteq> dtype input))"
    using prepare_out_fails_iff [of input ks out] by blast
next
  assume a: "histogramdd_out_cpu stub self bins weight density out = (Inr (), out')"
  show "sizes (hist out') = map (\<lambda>b. numel b - 1) bins"
    by (rule histogramdd_out_cpu_shapes(1) [OF a])
  show "map sizes (bin_edges out') = map (\<lambda>b. [(numel b - 1) + 1]) bins"
    by (rule histogramdd_out_cpu_shapes(2) [OF a])
next
  assume a: "histogramdd_out_cpu_bin_ct lstub self bin_ct range_opt weight density out = (Inr (), out')"
  note s = histogramdd_out_cpu_bin_ct_shapes [OF a]
  show "last (sizes self) \<le> length bin_ct" by (rule s(4))
  show "sizes (hist out') = map nat (take (last (sizes self)) bin_ct)" by (rule s(1))
  show "map sizes (bin_edges out') = map (\<lambda>k. [nat k + 1]) (take (last (sizes self)) bin_ct)" by (rule s(2))
  show "\<forall>k \<in> set (take (last (sizes self)) bin_ct). k > 0" by (rule s(3))
next
  assume a: "histogram_out_cpu stub self1 bins1 weight density hist_t bin_edges_t = (Inr (), hist', edges')"
  show "sizes hist' = [numel bins1 - 1]" by (rule histogram_out_cpu_shapes(1) [OF a])
  show "sizes edges' = [(numel bins1 - 1) + 1]" by (rule histogram_out_cpu_shapes(2) [OF a])
next
  assume a: "histogram_out_cpu_bin_ct lstub self1 k1 range_opt weight density hist_t bin_edges_t = (Inr (), hist', edges')"
  show "sizes hist' = [nat k1]" by (rule histogram_out_cpu_bin_ct_shapes(1) [OF a])
  show "sizes edges' = [nat k1 + 1]" by (rule histogram_out_cpu_bin_ct_shapes(2) [OF a])
  show "k1 > 0" by (rule histogram_out_cpu_bin_ct_shapes(3) [OF a])
next
  assume a: "histogram_histc_cpu_out lstub self1 k1 min_v max_v hist_t = (Inr (), hist')"
  show "sizes hist' = [nat k1]" by (rule histogram_histc_cpu_out_shapes(1) [OF a])
  show "k1 > 0" by (rule histogram_histc_cpu_out_shapes(2) [OF a])
qed

theorem output_shapes_witness:
  "(\<exists>out1. histogramdd_prepare_out \<lparr>dtype = kDouble, sizes = [1, 2], data = [Finite 0, Finite 1]\<rparr> [2, 3]
        \<lparr>hist = \<lparr>dtype = kDouble, sizes = [0], data = []\<rparr>,
         bin_edges = [\<lparr>dtype = kDouble, sizes = [0], data = []\<rparr>, \<lparr>dtype = kDouble, sizes = [0], data = []\<rparr>]\<rparr>
        = (Inr (), out1) \<and> sizes (hist out1) = [2, 3] \<and> map sizes (bin_edges out1) = [[3], [4]])
   \<and> (\<exists>e out1. histogramdd_prepare_out \<lparr>dtype = kDouble, sizes = [1, 2], data = [Finite 0, Finite 1]\<rparr> [2, 0]
        \<lparr>hist = \<lparr>dtype = kDouble, sizes = [0], data = []\<rparr>,
         bin_edges = [\<lparr>dtype = kDouble, sizes = [0], data = []\<rparr>, \<lparr>dtype = kDouble, sizes = [0], data = []\<rparr>]\<rparr>
        = (Inl e, out1) \<and> invalid_argument e)
   \<and> (\<exists>out'. histogramdd_out_cpu histogramdd_kernel
        \<lparr>dtype = kDouble, sizes = [3, 1], data = [Finite 0, Finite 0, Finite 1]\<rparr>
        [\<lparr>dtype = kDouble, sizes = [3], data = [Finite 0, Finite (1/2), Finite 1]\<rparr>] None False
        \<lparr>hist = \<lparr>dtype = kDouble, sizes = [0], data = []\<rparr>,
         bin_edges = [\<lparr>dtype = kDouble, sizes = [0], data = []\<rparr>]\<rparr> = (Inr (), out')
        \<and> sizes (hist out') = [2] \<and> map sizes (bin_edges out') = [[3]])
   \<and> (\<exists>out'. histogramdd_out_cpu_bin_ct histogramdd_linear_kernel
        \<lparr>dtype = kDouble, sizes = [3, 1], data = [Finite 0, Finite 0, Finite 1]\<rparr> [2] None None False
        \<lparr>hist = \<lparr>dtype = kDouble, sizes = [0], data = []\<rparr>,
         bin_edges = [\<lparr>dtype = kDouble, sizes = [0], data = []\<rparr>]\<rparr> = (Inr (), out')
        \<and> sizes (hist out') = [2] \<and> map sizes (bin_edges out') = [[3]])
   \<and> (\<exists>h' e'. histogram_out_cpu histogramdd_kernel
        \<lparr>dtype = kDouble, sizes = [3], data = [Finite 0, Finite 0, Finite 1]\<rparr>
        \<lparr>dtype = kDouble, sizes = [3], data = [Finite 0, Finite (1/2), Finite 1]\<rparr> None False
        \<lparr>dtype = kDouble, sizes = [0], data = []\<rparr> \<lparr>dtype = kDouble, sizes = [0], data = []\<rparr> = (Inr (), h', e')
        \<and> sizes h' = [2] \<and> sizes e' = [3])
   \<and> (\<exists>h' e'. histogram_out_cpu_bin_ct histogramdd_linear_kernel
        \<lparr>dtype = kDouble, sizes = [3], data = [Finite 0, Finite 0, Finite 1]\<rparr> 2 None None False
        \<lparr>dtype = kDouble, sizes = [0], data = []\<rparr> \<lparr>dtype = kDouble, sizes = [0], data = []\<rparr> = (Inr (), h', e')
        \<and> sizes h' = [2] \<and> sizes e' = [3])
   \<and> (\<exists>h'. histogram_histc_cpu_out histogramdd_linear_kernel
        \<lparr>dtype = kDouble, sizes = [3], data = [Finite 0, Finite 0, Finite 1]\<rparr> 2 (Finite 0) (Finite 1)
        \<lparr>dtype = kDouble, sizes = [0], data = []\<rparr> = (Inr (), h') \<and> sizes h' = [2])"
proof -
  let ?K = "histogramdd_kernel"
  let ?L = "histogramdd_linear_kernel"
  let ?I = "\<lparr>dtype = kDouble, sizes = [1, 2], data = [Finite 0, Finite 1]\<rparr>"
  let ?T = "\<lparr>dtype = kDouble, sizes = [3, 1], data = [Finite 0, Finite 0, Finite 1]\<rparr>"
  let ?T1 = "\<lparr>dtype = kDouble, sizes = [3], data = [Finite 0, Finite 0, Finite 1]\<rparr>"
  let ?B = "\<lparr>dtype = kDouble, sizes = [3], data = [Finite 0, Finite (1/2), Finite 1]\<rparr>"
  let ?E = "\<lparr>dtype = kDouble, sizes = [0], data = []\<rparr>"
  let ?H = "\<lparr>dtype = kDouble, sizes = [2], data = [Finite 2, Finite 1]\<rparr>"
  let ?P = "\<lparr>hist = \<lparr>dtype = kDouble, sizes = [2, 3],
                      data = [Finite 0, Finite 0, Finite 0, Finite 0, Finite 0, Finite 0]\<rparr>,
             bin_edges = [\<lparr>dtype = kDouble, sizes = [3], data = [Finite 0, Finite 0, Finite 0]\<rparr>,
                          \<lparr>dtype = kDouble, sizes = [4], data = [Finite 0, Finite 0, Finite 0, Finite 0]\<rparr>]\<rparr>"
  have c1: "histogramdd_prepare_out ?I [2, 3] \<lparr>hist = ?E, bin_edges = [?E, ?E]\<rparr> = (Inr (), ?P)"
    by code_simp
  have c3: "histogramdd_out_cpu ?K ?T [?B] None False \<lparr>hist = ?E, bin_edges = [?E]\<rparr>
              = (Inr (), \<lparr>hist = ?H, bin_edges = [?B]\<rparr>)" by code_simp
  have c4: "histogramdd_out_cpu_bin_ct ?L ?T [2] None None False \<lparr>hist = ?E, bin_edges = [?E]\<rparr>
              = (Inr (), \<lparr>hist = ?H, bin_edges = [?B]\<rparr>)" by code_simp
  have c5: "histogram_out_cpu ?K ?T1 ?B None False ?E ?E = (Inr (), ?H, ?B)" by code_simp
  have c6: "histogram_out_cpu_bin_ct ?L ?T1 2 None None False ?E ?E = (Inr (), ?H, ?B)" by code_simp
  have c7: "histogram_histc_cpu_out ?L ?T1 2 (Finite 0) (Finite 1) ?E = (Inr (), ?H)" by code_simp
  note t = output_shapes [where input = ?I and ks = "[2, 3]" and out = "\<lparr>hist = ?E, bin_edges = [?E]\<rparr>"
      and stub = ?K and self = ?T and bins = "[?B]" and weight = None and density = False
      and out' = "\<lparr>hist = ?H, bin_edges = [?B]\<rparr>" and lstub = ?L and bin_ct = "[2]" and range_opt = None
      and ?self1.0 = ?T1 and ?bins1.0 = ?B and hist_t = ?E and bin_edges_t = ?E and hist' = ?H and edges' = ?B
      and ?k1.0 = 2 and min_v = "Finite 0" and max_v = "Finite 1"]
  note p = output_shapes [where input = ?I and ks = "[2, 3]" and out = "\<lparr>hist = ?E, bin_edges = [?E, ?E]\<rparr>"
      and ?out1.0 = ?P]
  note q = output_shapes [where input = ?I and ks = "[2, 0]" and out = "\<lparr>hist = ?E, bin_edges = [?E, ?E]\<rparr>"]
  from p [THEN conjunct1, rule_format, OF c1]
  have 1: "sizes (hist ?P) = [2, 3] \<and> map sizes (bin_edges ?P) = [[3], [4]]" by simp
  have "sizes ?I \<noteq> [] \<and> length [2::int, 0] = last (sizes ?I) \<and>
        length (bin_edges \<lparr>hist = ?E, bin_edges = [?E, ?E]\<rparr>) = last (sizes ?I)" by simp
  from q [THEN conjunct2, THEN conjunct1, rule_format, OF this]
  have 2: "\<exists>e out1. histogramdd_prepare_out ?I [2, 0] \<lparr>hist = ?E, bin_edges = [?E, ?E]\<rparr> = (Inl e, out1)
             \<and> invalid_argument e" by simp
  from t [THEN conjunct2, THEN conjunct2, THEN conjunct1, rule_format, OF c3]
  have 3: "sizes (hist \<lparr>hist = ?H, bin_edges = [?B]\<rparr>) = [2] \<and>
           map sizes (bin_edges \<lparr>hist = ?H, bin_edges = [?B]\<rparr>) = [[3]]" by (simp add: numel_def)
  from t [THEN conjunct2, THEN conjunct2, THEN conjunct2, THEN conjunct1, rule_format, OF c4]
  have 4: "sizes (hist \<lparr>hist = ?H, bin_edges = [?B]\<rparr>) = [2] \<and>
           map sizes (bin_edges \<lparr>hist = ?H, bin_edges = [?B]\<rparr>) = [[3]]" by simp
  from t [THEN conjunct2, THEN conjunct2, THEN conjunct2, THEN conjunct2, THEN conjunct1, rule_format, OF c5]
  have 5: "sizes ?H = [2] \<and> sizes ?B = [3]" by (simp add: numel_def)
  from t [THEN conjunct2, THEN conjunct2, THEN conjunct2, THEN conjunct2, THEN conjunct2, THEN conjunct1,
      rule_format, OF c6]
  have 6: "sizes ?H = [2] \<and> sizes ?B = [3]" by simp
  from t [THEN conjunct2, THEN conjunct2, THEN conjunct2, THEN conjunct2, THEN conjunct2, THEN conjunct2,
      rule_format, OF c7]
  have 7: "sizes ?H = [2]" by simp
  show ?thesis
    apply (intro conjI)
          apply (rule exI [of _ ?P], rule conjI [OF c1 1])
         apply (rule 2)
        apply (rule exI [of _ "\<lparr>hist = ?H, bin_edges = [?B]\<rparr>"], rule conjI [OF c3 3])
       apply (rule exI [of _ "\<lparr>hist = ?H, bin_edges = [?B]\<rparr>"], rule conjI [OF c4 4])
      apply (rule exI [of _ ?H], rule exI [of _ ?B], rule conjI [OF c5 5])
     apply (rule exI [of _ ?H], rule exI [of _ ?B], rule conjI [OF c6 6])
    apply (rule exI [of _ ?H], rule conjI [OF c7 7])
    done
qed

section \<open>The one-dimensional entry points\<close>

lemma prepare_out_length:
  "length (bin_edges (snd (histogramdd_prepare_out input ks out))) = length (bin_edges out)"
proof -
  have "length (snd (prepare_edges (dtype input) 0 ks (bin_edges out))) = length (bin_edges out)"
    by (rule prepare_edges_length)
  then show ?thesis
    by (auto simp: histogramdd_prepare_out_def case_prod_unfold Let_def split: sum.splits)
qed

lemma histogramdd_out_cpu_length:
  "length (bin_edges (snd (histogramdd_out_cpu stub self bins weight density out))) = length (bin_edges out)"
proof (cases "histogramdd_check_inputs self bins weight")
  case (Inl e)
  then show ?thesis by (simp add: histogramdd_out_cpu_def)
next
  case (Inr u)
  obtain r out1 where p: "histogramdd_prepare_out_bins self bins out = (r, out1)"
    by (cases "histogramdd_prepare_out_bins self bins out")
  have l1: "length (bin_edges out1) = length (bin_edges out)"
    using prepare_out_length [of self "map (\<lambda>t. int (numel t) - 1) bins" out] p
    by (simp add: histogramdd_prepare_out_bins_def)
  show ?thesis
  proof (cases r)
    case (Inl e)
    then show ?thesis using Inr p l1 by (simp add: histogramdd_out_cpu_def)
  next
    case (Inr v)
    then have p': "histogramdd_prepare_out_bins self bins out = (Inr (), out1)" using p by simp
    have v: "inputs_valid self bins weight" using \<open>histogramdd_check_inputs self bins weight = Inr u\<close>
      by (simp add: check_inputs_ok [symmetric])
    have "copy_edges (bin_edges out1) bins = bins" by (rule prepared_edges_copy [OF v p'])
    moreover have "length bins = length (bin_edges out1)"
      using prepare_out_success(2) [OF p' [unfolded histogramdd_prepare_out_bins_def]]
      by (metis length_map)
    ultimately show ?thesis
      using \<open>histogramdd_check_inputs self bins weight = Inr u\<close> p' l1
      by (simp add: histogramdd_out_cpu_def Let_def)
  qed
qed

lemma histogram_out_cpu_facade:
  assumes "histogramdd_out_cpu stub (reshape self [numel self, 1]) [bins]
             (map_option (\<lambda>w. reshape w [numel w]) weight) density
             \<lparr>hist = hist_t, bin_edges = [bin_edges_t]\<rparr> = (r, out')"
  shows "\<exists>e. bin_edges out' = [e] \<and>
             histogram_out_cpu stub self bins weight density hist_t bin_edges_t = (r, hist out', e)"
proof -
  have "length (bin_edges out') = 1"
    using histogramdd_out_cpu_length [of stub "reshape self [numel self, 1]" "[bins]"
        "map_option (\<lambda>w. reshape w [numel w]) weight" density "\<lparr>hist = hist_t, bin_edges = [bin_edges_t]\<rparr>"]
      assms by simp
  then obtain e where e: "bin_edges out' = [e]"
    by (cases "bin_edges out'") auto
  then have "histogram_out_cpu stub self bins weight density hist_t bin_edges_t = (r, hist out', e)"
    using assms by (simp add: histogram_out_cpu_def Let_def)
  with e show ?thesis by blast
qed

text \<open>With finite bounds in order, the two outer-edge policies agree.\<close>

lemma histc_select_plain:
  assumes "isfinite min_v" "isfinite max_v" "fp_lt min_v max_v"
  shows "histc_select_outer_bin_edges self min_v max_v = Inr (min_v, max_v)"
  using assms
  by (cases min_v; cases max_v)
     (auto simp: histc_select_outer_bin_edges_def histc_check_def)

lemma select_outer_plain:
  assumes "isfinite min_v" "isfinite max_v" "fp_lt min_v max_v"
  shows "select_outer_bin_edges (reshape self [numel self, 1]) (Some [min_v, max_v]) = Inr ([min_v], [max_v])"
  using assms
  by (cases min_v; cases max_v)
     (auto simp: select_outer_bin_edges_def resolve_outer_edges_def reshape_def dim_t_def fp_le_def)

lemma histc_facade:
  assumes "isfinite min_v" "isfinite max_v" "fp_lt min_v max_v"
    and "histogram_out_cpu_bin_ct (\<lambda>s w d h e l. lstub s w d h e False) self bin_ct (Some [min_v, max_v]) None False
           hist_t (empty0 self) = (r, hist', edges')"
  shows "histogram_histc_cpu_out lstub self bin_ct min_v max_v hist_t = (r, hist')"
  using assms(4)
  unfolding histogram_out_cpu_bin_ct_def histogram_histc_cpu_out_def Let_def
    histc_select_plain [OF assms(1-3)] select_outer_plain [OF assms(1-3)]
  by (auto split: prod.splits sum.splits)

lemma bin_edges_out_cpu_reshaped:
  "histogramdd_bin_edges_out_cpu (reshape self [n, 1]) ks range_opt bs =
     (case select_outer_bin_edges (reshape self [n, 1]) range_opt of
        Inl e \<Rightarrow> Inl e
      | Inr (first, second) \<Rightarrow> linspace_edges first second ks bs)"
  by (simp add: histogramdd_bin_edges_out_cpu_def size_last_def reshape_def Let_def)

lemma histogram_out_cpu_bin_ct_is_histogramdd:
  assumes "histogram_out_cpu_bin_ct lstub self k range_opt weight density hist_t bin_edges_t
             = (Inr (), hist', edges')"
  shows "histogramdd_out_cpu_bin_ct lstub (reshape self [numel self, 1]) [k] range_opt
           (map_option (\<lambda>w. reshape w [numel w]) weight) density
           \<lparr>hist = hist_t, bin_edges = [bin_edges_t]\<rparr>
         = (Inr (), \<lparr>hist = hist', bin_edges = [edges']\<rparr>)"
proof -
  let ?R = "reshape self [numel self, 1]"
  let ?W = "map_option (\<lambda>w. reshape w [numel w]) weight"
  let ?out = "\<lparr>hist = hist_t, bin_edges = [bin_edges_t]\<rparr>"
  from histogram_out_cpu_bin_ct_success [OF assms] obtain out1 first second where
    p: "histogramdd_prepare_out ?R [k] ?out = (Inr (), out1)"
    and sel: "select_outer_bin_edges ?R range_opt = Inr (first, second)"
    and l: "linspace_cpu_out (first ! 0) (second ! 0) (k + 1) (bin_edges out1 ! 0) = Inr edges'"
    and c: "histogramdd_check_inputs ?R [edges'] ?W = Inr ()"
    and h: "hist' = (hist out1)\<lparr>data := lstub ?R ?W density (hist out1) [edges'] True\<rparr>"
    by blast
  note s = prepare_out_success [OF p]
  have k: "k > 0" using s(3) by simp
  have szR: "sizes ?R = [numel self, 1]" by (simp add: reshape_def)
  have be1: "bin_edges out1 = [resize_output bin_edges_t [nat (k + 1)]]" using s(7) by simp
  have dtb: "dtype bin_edges_t = dtype ?R" using s(5) be1 by simp
  have "sizes (bin_edges out1 ! 0) = [nat (k + 1)]" using be1 by simp
  note ls = linspace_cpu_out_sizes [OF l this]
  have e': "edges' = \<lparr>dtype = dtype ?R, sizes = [nat (k + 1)],
                       data = linspace_values (first ! 0) (second ! 0) (nat (k + 1))\<rparr>"
    using ls be1 dtb by (cases edges') simp
  note ss = select_outer_bin_edges_success [OF szR sel]
  obtain f where f: "first = [f]" using ss(1) by (cases first) auto
  obtain g where g: "second = [g]" using ss(2) by (cases second) auto
  have lin: "linspace_cpu_out f g (k + 1) (empty0 ?R) = Inr edges'"
    using k e' f g by (simp add: linspace_cpu_out_def empty0_def numel_def Let_def)
  have R: "reshape ?R [prod_list (butlast (sizes ?R)), last (sizes ?R)] = ?R"
    by (simp add: reshape_def)
  have be: "histogramdd_bin_edges_cpu ?R [k] range_opt = Inr [edges']"
    using sel f g lin
  proof -
    have a: "allocate_bin_edges_tensors ?R = Inr [empty0 ?R]"
      by (simp add: allocate_bin_edges_tensors_def dim_t_def reshape_def)
    have le: "linspace_edges [f] [g] [k] [empty0 ?R] = Inr [edges']" using lin by simp
    have "histogramdd_bin_edges_cpu ?R [k] range_opt
            = (case select_outer_bin_edges ?R range_opt of
                 Inl e \<Rightarrow> Inl e
               | Inr (first, second) \<Rightarrow> linspace_edges first second [k] [empty0 ?R])"
      unfolding histogramdd_bin_edges_cpu_def a sum.case
      by (rule bin_edges_out_cpu_reshaped)
    also have "\<dots> = Inr [edges']"
      by (simp only: sel f g le sum.case prod.case)
    finally show ?thesis .
  qed
  have ne: "numel edges' = nat (k + 1)" using e' by (simp add: numel_def)
  have pb: "histogramdd_prepare_out_bins ?R [edges'] ?out = (Inr (), out1)"
    using p ne k by (simp add: histogramdd_prepare_out_bins_def)
  have v: "inputs_valid ?R [edges'] ?W" using c by (simp add: check_inputs_ok)
  have cp: "copy_edges (bin_edges out1) [edges'] = [edges']" by (rule prepared_edges_copy [OF v pb])
  show ?thesis
    unfolding histogramdd_out_cpu_bin_ct_via_edges
    using be c pb cp h by (simp add: histogramdd_out_cpu_def Let_def)
qed

lemma finite_iff: "isfinite x = (\<not> isinf x \<and> \<not> isnan x)"
  by (cases x) auto

lemma histc_check_ok:
  "histc_check a b = Inr (l, r) \<Longrightarrow> isfinite l \<and> isfinite r \<and> fp_lt l r"
  by (auto simp: histc_check_def Let_def finite_iff split: if_splits)

lemma histc_select_ok:
  "histc_select_outer_bin_edges self min_v max_v = Inr (l, r) \<Longrightarrow> isfinite l \<and> isfinite r \<and> fp_lt l r"
  by (auto simp: histc_select_outer_bin_edges_def split: if_splits sum.splits dest: histc_check_ok)

lemma histc_is_histogramdd:
  assumes "histogram_histc_cpu_out lstub self k min_v max_v hist_t = (Inr (), hist')"
  shows "\<exists>l r e. histc_select_outer_bin_edges self min_v max_v = Inr (l, r) \<and>
           histogramdd_out_cpu_bin_ct (\<lambda>s w d h e loc. lstub s w d h e False)
             (reshape self [numel self, 1]) [k] (Some [l, r]) None False
             \<lparr>hist = hist_t, bin_edges = [empty0 self]\<rparr>
           = (Inr (), \<lparr>hist = hist', bin_edges = [e]\<rparr>)"
proof -
  let ?L = "\<lambda>s w (d::bool) h e (loc::bool). lstub s w d h e False"
  from histogram_histc_cpu_out_success [OF assms] obtain l r where
    sel: "histc_select_outer_bin_edges self min_v max_v = Inr (l, r)" by blast
  note ok = histc_select_ok [OF sel]
  have plain: "histc_select_outer_bin_edges self l r = Inr (l, r)"
    using ok by (intro histc_select_plain) auto
  have same: "histogram_histc_cpu_out lstub self k l r hist_t = (Inr (), hist')"
    using assms unfolding histogram_histc_cpu_out_def Let_def
    by (auto simp: sel plain split: prod.splits sum.splits)
  obtain r1 h1 e1 where one: "histogram_out_cpu_bin_ct ?L self k (Some [l, r]) None False hist_t (empty0 self)
                              = (r1, h1, e1)"
    by (cases "histogram_out_cpu_bin_ct ?L self k (Some [l, r]) None False hist_t (empty0 self)") auto
  have "histogram_histc_cpu_out lstub self k l r hist_t = (r1, h1)"
    using ok one by (intro histc_facade) auto
  with same have "r1 = Inr ()" "h1 = hist'" by simp_all
  with one have "histogram_out_cpu_bin_ct ?L self k (Some [l, r]) None False hist_t (empty0 self)
                   = (Inr (), hist', e1)" by simp
  from histogram_out_cpu_bin_ct_is_histogramdd [OF this]
  have "histogramdd_out_cpu_bin_ct ?L (reshape self [numel self, 1]) [k] (Some [l, r]) None False
             \<lparr>hist = hist_t, bin_edges = [empty0 self]\<rparr>
           = (Inr (), \<lparr>hist = hist', bin_edges = [e1]\<rparr>)" by simp
  with sel show ?thesis by blast
qed

text \<open>
  Claim C8. The one-dimensional entry points are adapters of the N-dimensional ones.
  Whatever the outcome, \<open>histogram_out_cpu\<close> with an edge tensor returns the outcome,
  the histogram and the single edge tensor that \<open>histogramdd_out_cpu\<close> leaves for
  the input reshaped to \<open>(numel, 1)\<close>, the edge tensor wrapped in a one-element list
  and the weight flattened to its number of elements. A successful call of the
  one-dimensional entry point with a bin count returns what the N-dimensional entry
  point with bin counts returns for the reshaped input. A successful call of
  \<open>histogram_histc_cpu_out\<close> returns the histogram of that same N-dimensional entry
  point for the reshaped input, the one bin count and the range that the outer-edge
  policy of histc resolved (the linear kernel called with \<open>local_search\<close> false); with
  finite bounds \<open>min < max\<close> it is, in every outcome, the one-dimensional entry point
  with the range \<open>[min, max]\<close>, no weight and no density.
\<close>

theorem one_dimensional_entry_points_are_facades:
  "(histogramdd_out_cpu stub (reshape self [numel self, 1]) [bins]
        (map_option (\<lambda>w. reshape w [numel w]) weight) density
        \<lparr>hist = hist_t, bin_edges = [bin_edges_t]\<rparr> = (res, out') \<longrightarrow>
      (\<exists>e. bin_edges out' = [e] \<and>
           histogram_out_cpu stub self bins weight density hist_t bin_edges_t = (res, hist out', e)))
   \<and> sizes (reshape self [numel self, 1]) = [numel self, 1]
   \<and> data (reshape self [numel self, 1]) = data self
   \<and> (\<forall>w. weight = Some w \<longrightarrow>
        (\<exists>w'. map_option (\<lambda>w. reshape w [numel w]) weight = Some w' \<and>
              sizes w' = [numel w] \<and> data w' = data w))
   \<and> (histogram_out_cpu_bin_ct lstub self k range_opt weight density hist_t bin_edges_t
        = (Inr (), hist', edges') \<longrightarrow>
      histogramdd_out_cpu_bin_ct lstub (reshape self [numel self, 1]) [k] range_opt
           (map_option (\<lambda>w. reshape w [numel w]) weight) density
           \<lparr>hist = hist_t, bin_edges = [bin_edges_t]\<rparr>
         = (Inr (), \<lparr>hist = hist', bin_edges = [edges']\<rparr>))
   \<and> (histogram_histc_cpu_out lstub self k min_v max_v hist_t = (Inr (), hist') \<longrightarrow>
      (\<exists>l r e. histc_select_outer_bin_edges self min_v max_v = Inr (l, r) \<and>
           histogramdd_out_cpu_bin_ct (\<lambda>s w d h e loc. lstub s w d h e False)
             (reshape self [numel self, 1]) [k] (Some [l, r]) None False
             \<lparr>hist = hist_t, bin_edges = [empty0 self]\<rparr>
           = (Inr (), \<lparr>hist = hist', bin_edges = [e]\<rparr>)))
   \<and> (isfinite min_v \<and> isfinite max_v \<and> fp_lt min_v max_v \<longrightarrow>
      histogram_histc_cpu_out lstub self k min_v max_v hist_t
        = (case histogram_out_cpu_bin_ct (\<lambda>s w d h e loc. lstub s w d h e False) self k
                  (Some [min_v, max_v]) None False hist_t (empty0 self) of
             (res, h, e) \<Rightarrow> (res, h)))"
proof (intro conjI impI allI)
  assume "histogramdd_out_cpu stub (reshape self [numel self, 1]) [bins]
        (map_option (\<lambda>w. reshape w [numel w]) weight) density
        \<lparr>hist = hist_t, bin_edges = [bin_edges_t]\<rparr> = (res, out')"
  then show "\<exists>e. bin_edges out' = [e] \<and>
           histogram_out_cpu stub self bins weight density hist_t bin_edges_t = (res, hist out', e)"
    by (rule histogram_out_cpu_facade)
next
  show "sizes (reshape self [numel self, 1]) = [numel self, 1]" by (simp add: reshape_def)
  show "data (reshape self [numel self, 1]) = data self" by (simp add: reshape_def)
next
  fix w assume "weight = Some w"
  then show "\<exists>w'. map_option (\<lambda>w. reshape w [numel w]) weight = Some w' \<and>
              sizes w' = [numel w] \<and> data w' = data w"
    by (simp add: reshape_def)
next
  assume "histogram_out_cpu_bin_ct lstub self k range_opt weight density hist_t bin_edges_t
        = (Inr (), hist', edges')"
  then show "histogramdd_out_cpu_bin_ct lstub (reshape self [numel self, 1]) [k] range_opt
           (map_option (\<lambda>w. reshape w [numel w]) weight) density
           \<lparr>hist = hist_t, bin_edges = [bin_edges_t]\<rparr>
         = (Inr (), \<lparr>hist = hist', bin_edges = [edges']\<rparr>)"
    by (rule histogram_out_cpu_bin_ct_is_histogramdd)
next
  assume "histogram_histc_cpu_out lstub self k min_v max_v hist_t = (Inr (), hist')"
  then show "\<exists>l r e. histc_select_outer_bin_edges self min_v max_v = Inr (l, r) \<and>
           histogramdd_out_cpu_bin_ct (\<lambda>s w d h e loc. lstub s w d h e False)
             (reshape self [numel self, 1]) [k] (Some [l, r]) None False
             \<lparr>hist = hist_t, bin_edges = [empty0 self]\<rparr>
           = (Inr (), \<lparr>hist = hist', bin_edges = [e]\<rparr>)"
    by (rule histc_is_histogramdd)
next
  assume a: "isfinite min_v \<and> isfinite max_v \<and> fp_lt min_v max_v"
  obtain r1 h1 e1 where one: "histogram_out_cpu_bin_ct (\<lambda>s w d h e loc. lstub s w d h e False) self k
                  (Some [min_v, max_v]) None False hist_t (empty0 self) = (r1, h1, e1)"
    by (cases "histogram_out_cpu_bin_ct (\<lambda>s w d h e loc. lstub s w d h e False) self k
                  (Some [min_v, max_v]) None False hist_t (empty0 self)") auto
  have "histogram_histc_cpu_out lstub self k min_v max_v hist_t = (r1, h1)"
    using a one by (intro histc_facade) auto
  then show "histogram_histc_cpu_out lstub self k min_v max_v hist_t
        = (case histogram_out_cpu_bin_ct (\<lambda>s w d h e loc. lstub s w d h e False) self k
                  (Some [min_v, max_v]) None False hist_t (empty0 self) of
             (res, h, e) \<Rightarrow> (res, h))"
    by (simp add: one)
qed

theorem one_dimensional_entry_points_are_facades_witness:
  "histogram_out_cpu histogramdd_kernel
        \<lparr>dtype = kDouble, sizes = [3], data = [Finite 0, Finite 0, Finite 1]\<rparr>
        \<lparr>dtype = kDouble, sizes = [3], data = [Finite 0, Finite (1/2), Finite 1]\<rparr> None False
        \<lparr>dtype = kDouble, sizes = [0], data = []\<rparr> \<lparr>dtype = kDouble, sizes = [0], data = []\<rparr>
      = (Inr (), \<lparr>dtype = kDouble, sizes = [2], data = [Finite 2, Finite 1]\<rparr>,
         \<lparr>dtype = kDouble, sizes = [3], data = [Finite 0, Finite (1/2), Finite 1]\<rparr>)
   \<and> histogramdd_out_cpu_bin_ct histogramdd_linear_kernel
        (reshape \<lparr>dtype = kDouble, sizes = [3], data = [Finite 0, Finite 0, Finite 1]\<rparr>
           [numel \<lparr>dtype = kDouble, sizes = [3], data = [Finite 0, Finite 0, Finite 1]\<rparr>, 1])
        [2] None None False
        \<lparr>hist = \<lparr>dtype = kDouble, sizes = [0], data = []\<rparr>,
         bin_edges = [\<lparr>dtype = kDouble, sizes = [0], data = []\<rparr>]\<rparr>
      = (Inr (), \<lparr>hist = \<lparr>dtype = kDouble, sizes = [2], data = [Finite 2, Finite 1]\<rparr>,
                  bin_edges = [\<lparr>dtype = kDouble, sizes = [3], data = [Finite 0, Finite (1/2), Finite 1]\<rparr>]\<rparr>)
   \<and> (\<exists>l r e. histc_select_outer_bin_edges
                  \<lparr>dtype = kDouble, sizes = [3], data = [Finite 0, Finite 0, Finite 1]\<rparr> (Finite 0) (Finite 0)
                = Inr (l, r) \<and>
        histogramdd_out_cpu_bin_ct (\<lambda>s w d h e loc. histogramdd_linear_kernel s w d h e False)
          (reshape \<lparr>dtype = kDouble, sizes = [3], data = [Finite 0, Finite 0, Finite 1]\<rparr>
             [numel \<lparr>dtype = kDouble, sizes = [3], data = [Finite 0, Finite 0, Finite 1]\<rparr>, 1])
          [2] (Some [l, r]) None False
          \<lparr>hist = \<lparr>dtype = kDouble, sizes = [0], data = []\<rparr>,
           bin_edges = [empty0 \<lparr>dtype = kDouble, sizes = [3], data = [Finite 0, Finite 0, Finite 1]\<rparr>]\<rparr>
        = (Inr (), \<lparr>hist = \<lparr>dtype = kDouble, sizes = [2], data = [Finite 2, Finite 1]\<rparr>, bin_edges = [e]\<rparr>))
   \<and> histogram_histc_cpu_out histogramdd_linear_kernel
        \<lparr>dtype = kDouble, sizes = [3], data = [Finite 0, Finite 0, Finite 1]\<rparr> 2 (Finite 0) (Finite 1)
        \<lparr>dtype = kDouble, sizes = [0], data = []\<rparr>
      = (Inr (), \<lparr>dtype = kDouble, sizes = [2], data = [Finite 2, Finite 1]\<rparr>)"
proof -
  let ?K = "histogramdd_kernel"
  let ?L = "histogramdd_linear_kernel"
  let ?T1 = "\<lparr>dtype = kDouble, sizes = [3], data = [Finite 0, Finite 0, Finite 1]\<rparr>"
  let ?B = "\<lparr>dtype = kDouble, sizes = [3], data = [Finite 0, Finite (1/2), Finite 1]\<rparr>"
  let ?E = "\<lparr>dtype = kDouble, sizes = [0], data = []\<rparr>"
  let ?H = "\<lparr>dtype = kDouble, sizes = [2], data = [Finite 2, Finite 1]\<rparr>"
  let ?O = "\<lparr>hist = ?H, bin_edges = [?B]\<rparr>"
  have c1: "histogramdd_out_cpu ?K (reshape ?T1 [numel ?T1, 1]) [?B] (map_option (\<lambda>w. reshape w [numel w]) None)
              False \<lparr>hist = ?E, bin_edges = [?E]\<rparr> = (Inr (), ?O)" by code_simp
  have c6: "histogram_out_cpu_bin_ct ?L ?T1 2 None None False ?E ?E = (Inr (), ?H, ?B)" by code_simp
  have c7: "histogram_histc_cpu_out ?L ?T1 2 (Finite 0) (Finite 0) ?E = (Inr (), ?H)" by code_simp
  have c8: "histogram_out_cpu_bin_ct (\<lambda>s w d h e loc. ?L s w d h e False) ?T1 2
              (Some [Finite 0, Finite 1]) None False ?E (empty0 ?T1) = (Inr (), ?H, ?B)" by code_simp
  note t = one_dimensional_entry_points_are_facades [where stub = ?K and self = ?T1 and bins = ?B
      and weight = None and density = False and hist_t = ?E and bin_edges_t = ?E and res = "Inr ()"
      and out' = ?O and lstub = ?L and k = 2 and range_opt = None and hist' = ?H and edges' = ?B
      and min_v = "Finite 0" and max_v = "Finite 0"]
  note u = one_dimensional_entry_points_are_facades [where lstub = ?L and self = ?T1 and k = 2
      and hist_t = ?E and min_v = "Finite 0" and max_v = "Finite 1"]
  from t [THEN conjunct1, rule_format, OF c1]
  have 1: "histogram_out_cpu ?K ?T1 ?B None False ?E ?E = (Inr (), ?H, ?B)" by simp
  from t [THEN conjunct2, THEN conjunct2, THEN conjunct2, THEN conjunct2, THEN conjunct1, rule_format, OF c6]
  have 2: "histogramdd_out_cpu_bin_ct ?L (reshape ?T1 [numel ?T1, 1]) [2] None None False
             \<lparr>hist = ?E, bin_edges = [?E]\<rparr> = (Inr (), ?O)" by simp
  note 3 = t [THEN conjunct2, THEN conjunct2, THEN conjunct2, THEN conjunct2, THEN conjunct2, THEN conjunct1,
      rule_format, OF c7]
  have fin: "isfinite (Finite 0) \<and> isfinite (Finite 1) \<and> fp_lt (Finite 0) (Finite 1)" by simp
  from u [THEN conjunct2, THEN conjunct2, THEN conjunct2, THEN conjunct2, THEN conjunct2, THEN conjunct2,
      rule_format, OF fin]
  have 4: "histogram_histc_cpu_out ?L ?T1 2 (Finite 0) (Finite 1) ?E = (Inr (), ?H)"
    by (simp only: c8 prod.case)
  show ?thesis
    apply (intro conjI)
       apply (rule 1)
      apply (rule 2)
     apply (rule 3)
    apply (rule 4)
    done
qed

section \<open>The outputs after a failed call\<close>

lemma prepare_out_failure:
  assumes "histogramdd_prepare_out input ks out = (Inl e, out1)"
  shows "hist out1 = hist out" and "length (bin_edges out1) = length (bin_edges out)"
proof -
  show "hist out1 = hist out"
    using assms
    by (auto simp: histogramdd_prepare_out_def case_prod_unfold Let_def split: sum.splits if_splits)
  show "length (bin_edges out1) = length (bin_edges out)"
    using prepare_out_length [of input ks out] assms by simp
qed

lemma prepare_out_failure_single:
  assumes "histogramdd_prepare_out input [k] \<lparr>hist = h, bin_edges = [b]\<rparr> = (Inl e, out1)"
  shows "out1 = \<lparr>hist = h, bin_edges = [b]\<rparr>"
  using assms
  by (auto simp: histogramdd_prepare_out_def Let_def split: sum.splits if_splits)

lemma histogramdd_out_cpu_failure:
  assumes "histogramdd_out_cpu stub self bins weight density out = (Inl e, out')"
  shows "(histogramdd_check_inputs self bins weight = Inl e \<and> out' = out) \<or>
         (histogramdd_check_inputs self bins weight = Inr () \<and>
          histogramdd_prepare_out_bins self bins out = (Inl e, out'))"
  using assms
  by (auto simp: histogramdd_out_cpu_def Let_def split: sum.splits prod.splits)

lemma histogramdd_out_cpu_bin_ct_failure:
  assumes "histogramdd_out_cpu_bin_ct lstub self bin_ct range_opt weight density out = (Inl e, out')"
  shows "(histogramdd_bin_edges_cpu self bin_ct range_opt = Inl e \<and> out' = out) \<or>
         (\<exists>bins. histogramdd_bin_edges_cpu self bin_ct range_opt = Inr bins \<and>
            ((histogramdd_check_inputs self bins weight = Inl e \<and> out' = out) \<or>
             (histogramdd_check_inputs self bins weight = Inr () \<and>
              histogramdd_prepare_out_bins self bins out = (Inl e, out'))))"
proof (cases "histogramdd_bin_edges_cpu self bin_ct range_opt")
  case (Inl x)
  then show ?thesis using assms by (simp add: histogramdd_out_cpu_bin_ct_via_edges)
next
  case (Inr bins)
  then have "histogramdd_out_cpu (\<lambda>s w d h e. lstub s w d h e True) self bins weight density out = (Inl e, out')"
    using assms by (simp add: histogramdd_out_cpu_bin_ct_via_edges)
  from histogramdd_out_cpu_failure [OF this] Inr show ?thesis by blast
qed

lemma histogram_out_cpu_failure:
  assumes "histogram_out_cpu stub self bins weight density hist_t bin_edges_t = (Inl e, hist', edges')"
  shows "hist' = hist_t \<and> edges' = bin_edges_t"
proof -
  let ?out = "\<lparr>hist = hist_t, bin_edges = [bin_edges_t]\<rparr>"
  obtain r out' where c: "histogramdd_out_cpu stub (reshape self [numel self, 1]) [bins]
             (map_option (\<lambda>w. reshape w [numel w]) weight) density ?out = (r, out')"
    by (cases "histogramdd_out_cpu stub (reshape self [numel self, 1]) [bins]
             (map_option (\<lambda>w. reshape w [numel w]) weight) density ?out")
  from histogram_out_cpu_facade [OF c] assms obtain b where
    b: "bin_edges out' = [b]" and r: "r = Inl e" and h: "hist' = hist out'" and e: "edges' = b"
    by auto
  from histogramdd_out_cpu_failure [OF c [unfolded r]]
  have "out' = ?out"
  proof
    assume "histogramdd_check_inputs (reshape self [numel self, 1]) [bins]
              (map_option (\<lambda>w. reshape w [numel w]) weight) = Inl e \<and> out' = ?out"
    then show ?thesis by simp
  next
    assume "histogramdd_check_inputs (reshape self [numel self, 1]) [bins]
              (map_option (\<lambda>w. reshape w [numel w]) weight) = Inr () \<and>
            histogramdd_prepare_out_bins (reshape self [numel self, 1]) [bins] ?out = (Inl e, out')"
    then show ?thesis
      by (auto simp: histogramdd_prepare_out_bins_def dest: prepare_out_failure_single)
  qed
  with b h e show ?thesis by simp
qed

lemma histogram_out_cpu_bin_ct_failure:
  assumes "histogram_out_cpu_bin_ct lstub self k range_opt weight density hist_t bin_edges_t
             = (Inl e, hist', edges')"
  shows "(histogramdd_prepare_out (reshape self [numel self, 1]) [k]
            \<lparr>hist = hist_t, bin_edges = [bin_edges_t]\<rparr>
            = (Inl e, \<lparr>hist = hist_t, bin_edges = [bin_edges_t]\<rparr>) \<and>
          hist' = hist_t \<and> edges' = bin_edges_t) \<or>
         ((select_outer_bin_edges (reshape self [numel self, 1]) range_opt = Inl e \<or>
           (\<exists>edges. histogramdd_check_inputs (reshape self [numel self, 1]) [edges]
                       (map_option (\<lambda>w. reshape w [numel w]) weight) = Inl e)) \<and>
          k > 0 \<and> sizes hist' = [nat k] \<and> sizes edges' = [nat k + 1])"
proof -
  let ?R = "reshape self [numel self, 1]"
  let ?out = "\<lparr>hist = hist_t, bin_edges = [bin_edges_t]\<rparr>"
  obtain r out1 where p: "histogramdd_prepare_out ?R [k] ?out = (r, out1)"
    by (cases "histogramdd_prepare_out ?R [k] ?out")
  show ?thesis
  proof (cases r)
    case (Inl x)
    with p assms have x: "x = e" and h: "hist' = hist out1" and ed: "edges' = bin_edges out1 ! 0"
      by (simp_all add: histogram_out_cpu_bin_ct_def Let_def)
    from prepare_out_failure_single [OF p [unfolded Inl]] have "out1 = ?out" .
    with p Inl x h ed show ?thesis by simp
  next
    case (Inr u)
    then have p': "histogramdd_prepare_out ?R [k] ?out = (Inr (), out1)" using p by simp
    note s = prepare_out_success [OF p']
    have k: "k > 0" using s(3) by simp
    have h1: "sizes (hist out1) = [nat k]" using s(1) by simp
    have b1: "sizes (bin_edges out1 ! 0) = [nat (k + 1)]" using s(7) by simp
    have nk: "nat (k + 1) = nat k + 1" using k by (simp add: nat_add_distrib)
    show ?thesis
    proof (cases "select_outer_bin_edges ?R range_opt")
      case (Inl x)
      with p' assms have "x = e" "hist' = hist out1" "edges' = bin_edges out1 ! 0"
        by (simp_all add: histogram_out_cpu_bin_ct_def Let_def)
      with Inl k h1 b1 nk show ?thesis by simp
    next
      case sel: (Inr pr)
      obtain first second where pr: "pr = (first, second)" by (cases pr)
      have "k + 1 \<ge> 0" using k by simp
      then obtain edges where l: "linspace_cpu_out (first ! 0) (second ! 0) (k + 1) (bin_edges out1 ! 0) = Inr edges"
        by (simp add: linspace_cpu_out_def Let_def)
      note ls = linspace_cpu_out_sizes [OF l b1]
      from assms p' sel pr l
      have "histogramdd_check_inputs ?R [edges] (map_option (\<lambda>w. reshape w [numel w]) weight) = Inl e
            \<and> hist' = hist out1 \<and> edges' = edges"
        by (auto simp: histogram_out_cpu_bin_ct_def Let_def split: sum.splits)
      with k h1 ls nk show ?thesis by auto
    qed
  qed
qed

lemma histogram_histc_cpu_out_failure:
  assumes "histogram_histc_cpu_out lstub self k min_v max_v hist_t = (Inl e, hist')"
  shows "(histogramdd_prepare_out (reshape self [numel self, 1]) [k]
            \<lparr>hist = hist_t, bin_edges = [empty0 self]\<rparr>
            = (Inl e, \<lparr>hist = hist_t, bin_edges = [empty0 self]\<rparr>) \<and> hist' = hist_t) \<or>
         ((histc_select_outer_bin_edges self min_v max_v = Inl e \<or>
           (\<exists>edges. histogramdd_check_inputs (reshape self [numel self, 1]) [edges] None = Inl e)) \<and>
          k > 0 \<and> sizes hist' = [nat k])"
proof -
  let ?R = "reshape self [numel self, 1]"
  let ?out = "\<lparr>hist = hist_t, bin_edges = [empty0 self]\<rparr>"
  obtain r out1 where p: "histogramdd_prepare_out ?R [k] ?out = (r, out1)"
    by (cases "histogramdd_prepare_out ?R [k] ?out")
  show ?thesis
  proof (cases r)
    case (Inl x)
    with p assms have x: "x = e" and h: "hist' = hist out1"
      by (simp_all add: histogram_histc_cpu_out_def Let_def)
    from prepare_out_failure_single [OF p [unfolded Inl]] have "out1 = ?out" .
    with p Inl x h show ?thesis by simp
  next
    case (Inr u)
    then have p': "histogramdd_prepare_out ?R [k] ?out = (Inr (), out1)" using p by simp
    note s = prepare_out_success [OF p']
    have k: "k > 0" using s(3) by simp
    have h1: "sizes (hist out1) = [nat k]" using s(1) by simp
    show ?thesis
    proof (cases "histc_select_outer_bin_edges self min_v max_v")
      case (Inl x)
      with p' assms have "x = e" "hist' = hist out1"
        by (simp_all add: histogram_histc_cpu_out_def Let_def)
      with Inl k h1 show ?thesis by simp
    next
      case sel: (Inr pr)
      obtain first second where pr: "pr = (first, second)" by (cases pr)
      have "k + 1 \<ge> 0" using k by simp
      then obtain edges where l: "linspace_cpu_out first second (k + 1) (bin_edges out1 ! 0) = Inr edges"
        by (simp add: linspace_cpu_out_def Let_def)
      from assms p' sel pr l
      have "histogramdd_check_inputs ?R [edges] None = Inl e \<and> hist' = hist out1"
        by (auto simp: histogram_histc_cpu_out_def Let_def split: sum.splits)
      with k h1 show ?thesis by auto
    qed
  qed
qed

text \<open>
  The one-dimensional entry point with a bin count prepares its outputs before it
  resolves the range. For the input \<open>[5.0]\<close>, two bins and the range \<open>[1, 0]\<close> the
  call fails in the check that the low bound does not exceed the high one, after
  output preparation has succeeded, and leaves the empty buffers \<open>hist\<close> and
  \<open>bin_edges\<close> resized to 2 and 3 elements. \<open>histogram_histc_cpu_out\<close> does the same:
  with the bounds 1 and infinity it fails in the finiteness check and leaves \<open>hist\<close>
  resized to 2 elements.
\<close>

theorem range_check_fails_after_resize:
  "fst (histogram_out_cpu_bin_ct histogramdd_linear_kernel
          \<lparr>dtype = kDouble, sizes = [1], data = [Finite 5]\<rparr> 2 (Some [Finite 1, Finite 0]) None False
          \<lparr>dtype = kDouble, sizes = [0], data = []\<rparr> \<lparr>dtype = kDouble, sizes = [0], data = []\<rparr>)
     = Inl (MinExceedsMax 0)
   \<and> sizes (fst (snd (histogram_out_cpu_bin_ct histogramdd_linear_kernel
          \<lparr>dtype = kDouble, sizes = [1], data = [Finite 5]\<rparr> 2 (Some [Finite 1, Finite 0]) None False
          \<lparr>dtype = kDouble, sizes = [0], data = []\<rparr> \<lparr>dtype = kDouble, sizes = [0], data = []\<rparr>))) = [2]
   \<and> sizes (snd (snd (histogram_out_cpu_bin_ct histogramdd_linear_kernel
          \<lparr>dtype = kDouble, sizes = [1], data = [Finite 5]\<rparr> 2 (Some [Finite 1, Finite 0]) None False
          \<lparr>dtype = kDouble, sizes = [0], data = []\<rparr> \<lparr>dtype = kDouble, sizes = [0], data = []\<rparr>))) = [3]
   \<and> fst (histogramdd_prepare_out (reshape \<lparr>dtype = kDouble, sizes = [1], data = [Finite 5]\<rparr> [1, 1]) [2]
          \<lparr>hist = \<lparr>dtype = kDouble, sizes = [0], data = []\<rparr>,
           bin_edges = [\<lparr>dtype = kDouble, sizes = [0], data = []\<rparr>]\<rparr>) = Inr ()
   \<and> select_outer_bin_edges (reshape \<lparr>dtype = kDouble, sizes = [1], data = [Finite 5]\<rparr> [1, 1])
          (Some [Finite 1, Finite 0]) = Inl (MinExceedsMax 0)
   \<and> fst (histogram_histc_cpu_out histogramdd_linear_kernel
          \<lparr>dtype = kDouble, sizes = [1], data = [Finite 5]\<rparr> 2 (Finite 1) PosInf
          \<lparr>dtype = kDouble, sizes = [0], data = []\<rparr>)
     = Inl HistcRangeNotFinite
   \<and> sizes (snd (histogram_histc_cpu_out histogramdd_linear_kernel
          \<lparr>dtype = kDouble, sizes = [1], data = [Finite 5]\<rparr> 2 (Finite 1) PosInf
          \<lparr>dtype = kDouble, sizes = [0], data = []\<rparr>)) = [2]"
  by code_simp

text \<open>
  Claim C1, as the code has it. A failed call of an N-dimensional entry point leaves
  \<open>hist\<close> and \<open>bin_edges\<close> as they were, unless the error comes from output
  preparation, which leaves \<open>hist\<close> as it was (it may have resized edge buffers of
  dimensions before the failing one). A failed call of the one-dimensional entry point
  with an edge tensor leaves both outputs as they were. The one-dimensional entry
  point with a bin count and \<open>histogram_histc_cpu_out\<close> prepare the outputs first: when
  output preparation fails, the outputs are as they were; when a later check fails
  (the range checks or input validation), \<open>hist\<close> already has \<open>bin_ct\<close> elements and
  \<open>bin_edges\<close> has \<open>bin_ct + 1\<close>.
\<close>

theorem failed_call_outputs:
  "(histogramdd_out_cpu stub self bins weight density out = (Inl e, out') \<longrightarrow>
      out' = out \<or>
      (histogramdd_prepare_out_bins self bins out = (Inl e, out') \<and> hist out' = hist out))
   \<and> (histogramdd_out_cpu_bin_ct lstub self bin_ct range_opt weight density out = (Inl e, out') \<longrightarrow>
      out' = out \<or>
      (\<exists>bs. histogramdd_bin_edges_cpu self bin_ct range_opt = Inr bs \<and>
            histogramdd_prepare_out_bins self bs out = (Inl e, out') \<and> hist out' = hist out))
   \<and> (histogram_out_cpu stub self1 bins1 weight density hist_t bin_edges_t = (Inl e, hist', edges') \<longrightarrow>
      hist' = hist_t \<and> edges' = bin_edges_t)
   \<and> (histogram_out_cpu_bin_ct lstub self1 k range_opt weight density hist_t bin_edges_t
        = (Inl e, hist', edges') \<longrightarrow>
      (histogramdd_prepare_out (reshape self1 [numel self1, 1]) [k]
            \<lparr>hist = hist_t, bin_edges = [bin_edges_t]\<rparr>
            = (Inl e, \<lparr>hist = hist_t, bin_edges = [bin_edges_t]\<rparr>) \<and>
          hist' = hist_t \<and> edges' = bin_edges_t) \<or>
      ((select_outer_bin_edges (reshape self1 [numel self1, 1]) range_opt = Inl e \<or>
           (\<exists>edges. histogramdd_check_inputs (reshape self1 [numel self1, 1]) [edges]
                       (map_option (\<lambda>w. reshape w [numel w]) weight) = Inl e)) \<and>
          k > 0 \<and> sizes hist' = [nat k] \<and> sizes edges' = [nat k + 1]))
   \<and> (histogram_histc_cpu_out lstub self1 k min_v max_v hist_t = (Inl e, hist') \<longrightarrow>
      (histogramdd_prepare_out (reshape self1 [numel self1, 1]) [k]
            \<lparr>hist = hist_t, bin_edges = [empty0 self1]\<rparr>
            = (Inl e, \<lparr>hist = hist_t, bin_edges = [empty0 self1]\<rparr>) \<and> hist' = hist_t) \<or>
      ((histc_select_outer_bin_edges self1 min_v max_v = Inl e \<or>
           (\<exists>edges. histogramdd_check_inputs (reshape self1 [numel self1, 1]) [edges] None = Inl e)) \<and>
          k > 0 \<and> sizes hist' = [nat k]))"
proof (intro conjI impI)
  assume a: "histogramdd_out_cpu stub self bins weight density out = (Inl e, out')"
  from histogramdd_out_cpu_failure [OF a]
  show "out' = out \<or>
      (histogramdd_prepare_out_bins self bins out = (Inl e, out') \<and> hist out' = hist out)"
    by (auto simp: histogramdd_prepare_out_bins_def dest: prepare_out_failure(1))
next
  assume a: "histogramdd_out_cpu_bin_ct lstub self bin_ct range_opt weight density out = (Inl e, out')"
  from histogramdd_out_cpu_bin_ct_failure [OF a]
  show "out' = out \<or>
      (\<exists>bs. histogramdd_bin_edges_cpu self bin_ct range_opt = Inr bs \<and>
            histogramdd_prepare_out_bins self bs out = (Inl e, out') \<and> hist out' = hist out)"
    by (auto simp: histogramdd_prepare_out_bins_def dest: prepare_out_failure(1))
next
  assume a: "histogram_out_cpu stub self1 bins1 weight density hist_t bin_edges_t = (Inl e, hist', edges')"
  from histogram_out_cpu_failure [OF a] show "hist' = hist_t" "edges' = bin_edges_t" by simp_all
next
  assume a: "histogram_out_cpu_bin_ct lstub self1 k range_opt weight density hist_t bin_edges_t
        = (Inl e, hist', edges')"
  from histogram_out_cpu_bin_ct_failure [OF a]
  show "(histogramdd_prepare_out (reshape self1 [numel self1, 1]) [k]
            \<lparr>hist = hist_t, bin_edges = [bin_edges_t]\<rparr>
            = (Inl e, \<lparr>hist = hist_t, bin_edges = [bin_edges_t]\<rparr>) \<and>
          hist' = hist_t \<and> edges' = bin_edges_t) \<or>
      ((select_outer_bin_edges (reshape self1 [numel self1, 1]) range_opt = Inl e \<or>
           (\<exists>edges. histogramdd_check_inputs (reshape self1 [numel self1, 1]) [edges]
                       (map_option (\<lambda>w. reshape w [numel w]) weight) = Inl e)) \<and>
          k > 0 \<and> sizes hist' = [nat k] \<and> sizes edges' = [nat k + 1])" .
next
  assume a: "histogram_histc_cpu_out lstub self1 k min_v max_v hist_t = (Inl e, hist')"
  from histogram_histc_cpu_out_failure [OF a]
  show "(histogramdd_prepare_out (reshape self1 [numel self1, 1]) [k]
            \<lparr>hist = hist_t, bin_edges = [empty0 self1]\<rparr>
            = (Inl e, \<lparr>hist = hist_t, bin_edges = [empty0 self1]\<rparr>) \<and> hist' = hist_t) \<or>
      ((histc_select_outer_bin_edges self1 min_v max_v = Inl e \<or>
           (\<exists>edges. histogramdd_check_inputs (reshape self1 [numel self1, 1]) [edges] None = Inl e)) \<and>
          k > 0 \<and> sizes hist' = [nat k])" .
qed

theorem failed_call_outputs_witness:
  "(\<exists>out'. histogramdd_out_cpu_bin_ct histogramdd_linear_kernel
        \<lparr>dtype = kDouble, sizes = [1, 1], data = [Finite 5]\<rparr> [2] (Some [Finite 1, Finite 0]) None False
        \<lparr>hist = \<lparr>dtype = kDouble, sizes = [0], data = []\<rparr>,
         bin_edges = [\<lparr>dtype = kDouble, sizes = [0], data = []\<rparr>]\<rparr> = (Inl (MinExceedsMax 0), out')
      \<and> out' = \<lparr>hist = \<lparr>dtype = kDouble, sizes = [0], data = []\<rparr>,
                 bin_edges = [\<lparr>dtype = kDouble, sizes = [0], data = []\<rparr>]\<rparr>)
   \<and> (\<exists>h' e'. histogram_out_cpu_bin_ct histogramdd_linear_kernel
        \<lparr>dtype = kDouble, sizes = [1], data = [Finite 5]\<rparr> 2 (Some [Finite 1, Finite 0]) None False
        \<lparr>dtype = kDouble, sizes = [0], data = []\<rparr> \<lparr>dtype = kDouble, sizes = [0], data = []\<rparr>
        = (Inl (MinExceedsMax 0), h', e') \<and> sizes h' = [2] \<and> sizes e' = [3])
   \<and> (\<exists>h' e'. histogram_out_cpu histogramdd_kernel
        \<lparr>dtype = kDouble, sizes = [1], data = [Finite 5]\<rparr>
        \<lparr>dtype = kDouble, sizes = [1], data = [Finite 5]\<rparr> None False
        \<lparr>dtype = kDouble, sizes = [0], data = []\<rparr> \<lparr>dtype = kDouble, sizes = [0], data = []\<rparr>
        = (Inl (BinsNotPositive 0 0), h', e')
      \<and> h' = \<lparr>dtype = kDouble, sizes = [0], data = []\<rparr> \<and> e' = \<lparr>dtype = kDouble, sizes = [0], data = []\<rparr>)"
proof -
  let ?K = "histogramdd_kernel"
  let ?L = "histogramdd_linear_kernel"
  let ?T = "\<lparr>dtype = kDouble, sizes = [1, 1], data = [Finite 5]\<rparr>"
  let ?T1 = "\<lparr>dtype = kDouble, sizes = [1], data = [Finite 5]\<rparr>"
  let ?E = "\<lparr>dtype = kDouble, sizes = [0], data = []\<rparr>"
  let ?O = "\<lparr>hist = ?E, bin_edges = [?E]\<rparr>"
  let ?H2 = "\<lparr>dtype = kDouble, sizes = [2], data = [Finite 0, Finite 0]\<rparr>"
  let ?E3 = "\<lparr>dtype = kDouble, sizes = [3], data = [Finite 0, Finite 0, Finite 0]\<rparr>"
  have c2: "histogramdd_out_cpu_bin_ct ?L ?T [2] (Some [Finite 1, Finite 0]) None False ?O
              = (Inl (MinExceedsMax 0), ?O)" by code_simp
  have c3: "histogram_out_cpu ?K ?T1 ?T1 None False ?E ?E = (Inl (BinsNotPositive 0 0), ?E, ?E)" by code_simp
  have c4: "histogram_out_cpu_bin_ct ?L ?T1 2 (Some [Finite 1, Finite 0]) None False ?E ?E
              = (Inl (MinExceedsMax 0), ?H2, ?E3)" by code_simp
  have np: "histogramdd_prepare_out (reshape ?T1 [numel ?T1, 1]) [2] \<lparr>hist = ?E, bin_edges = [?E]\<rparr>
              \<noteq> (Inl (MinExceedsMax 0), \<lparr>hist = ?E, bin_edges = [?E]\<rparr>)" by code_simp
  have "histogramdd_bin_edges_cpu ?T [2] (Some [Finite 1, Finite 0]) = Inl (MinExceedsMax 0)" by code_simp
  then have nb: "\<forall>bs. histogramdd_bin_edges_cpu ?T [2] (Some [Finite 1, Finite 0]) \<noteq> Inr bs" by simp
  note t = failed_call_outputs [where lstub = ?L and self = ?T and bin_ct = "[2]"
      and range_opt = "Some [Finite 1, Finite 0]" and weight = None and density = False and out = ?O
      and out' = ?O and e = "MinExceedsMax 0" and ?self1.0 = ?T1 and k = 2 and hist_t = ?E
      and bin_edges_t = ?E and hist' = ?H2 and edges' = ?E3]
  note u = failed_call_outputs [where stub = ?K and ?self1.0 = ?T1 and ?bins1.0 = ?T1 and weight = None
      and density = False and hist_t = ?E and bin_edges_t = ?E and hist' = ?E and edges' = ?E
      and e = "BinsNotPositive 0 0"]
  from t [THEN conjunct2, THEN conjunct1, rule_format, OF c2] nb
  have 2: "?O = ?O" by blast
  from t [THEN conjunct2, THEN conjunct2, THEN conjunct2, THEN conjunct1, rule_format, OF c4] np
  have 4: "sizes ?H2 = [2] \<and> sizes ?E3 = [3]" by auto
  from u [THEN conjunct2, THEN conjunct2, THEN conjunct1, rule_format, OF c3]
  have 3: "?E = ?E \<and> ?E = ?E" .
  show ?thesis
    apply (intro conjI)
      apply (rule exI [of _ ?O], rule conjI [OF c2 2])
     apply (rule exI [of _ ?H2], rule exI [of _ ?E3], rule conjI [OF c4 4])
    apply (rule exI [of _ ?E], rule exI [of _ ?E], rule conjI [OF c3 3])
    done
qed

section \<open>Properties of the generic accumulator\<close>















end
